theory Spec2Isabelle
  imports Complex_Main "HOL-Library.Monad_Syntax"
begin

section \<open>Polynomial chaos moment engines of \<open>utils.py\<close>\<close>

text \<open>
  The module works on NumPy arrays of float64. The embedding takes a float to be a
  \<^typ>\<open>real\<close> and a one-dimensional array to be a list; Python integers that
  count things (orders, sizes) are natural numbers. An exception is a value of
  \<open>error\<close>, and a function that can raise returns \<open>error + 'a\<close>.
\<close>

datatype error =
    ShapeMismatch    \<comment> \<open>the \<open>ValueError\<close> raised by the length check of an analytic engine\<close>
  | BroadcastError   \<comment> \<open>the \<open>ValueError\<close> NumPy raises when shapes cannot be broadcast\<close>
  | QuadratureError  \<comment> \<open>the \<open>ValueError\<close> of \<open>hermgauss\<close> for a count below one\<close>
  | IndexError
  | LinAlgError
  | NameError        \<comment> \<open>a local variable read before it is bound\<close>

subsection \<open>Multi-index table\<close>

text \<open>
  \<open>special.comb(m, m1)\<close>, called with the default \<open>exact=False\<close>, evaluates scipy's
  \<open>binom\<close> in float64, and \<open>int\<close> truncates the float it returns. Truncation turns an
  error of one unit in the last place into an error of one, so the rounding of every
  operation of \<open>binom\<close> is part of this function, unlike in the rest of the module, where
  a float is taken to be a real.

  \<open>float64 x\<close> is the double nearest to \<open>x\<close>: a significand of 53 bits, ties to the even
  significand. The exponent range is not represented; for an argument of \<open>np.arange\<close>
  (an \<open>int64\<close>) no value of the multiplication loop below leaves it.
\<close>

definition round_half_even :: "real \<Rightarrow> int" where
  "round_half_even y =
     (let f = \<lfloor>y\<rfloor>
      in if y - of_int f < 1 / 2 then f
         else if 1 / 2 < y - of_int f then f + 1
         else if even f then f else f + 1)"

definition float64 :: "real \<Rightarrow> real" where
  "float64 x =
     (if x = 0 then 0
      else (let e = \<lfloor>log 2 \<bar>x\<bar>\<rfloor>
            in sgn x * of_int (round_half_even (\<bar>x\<bar> * 2 powr of_int (52 - e)))
                 * 2 powr of_int (e - 52)))"

text \<open>
  One pass of the loop of \<open>binom\<close>, on the pair \<open>(num, den)\<close>:
  \<open>num *= i + n - kx; den *= i; if fabs(num) > 1e50: num /= den; den = 1.0\<close>.
\<close>

definition binom_step :: "real \<Rightarrow> real \<Rightarrow> nat \<Rightarrow> real \<times> real \<Rightarrow> real \<times> real" where
  "binom_step n kx i nd =
     (let num = float64 (fst nd * float64 (float64 (real i + n) - kx));
          den = float64 (snd nd * real i)
      in if \<bar>num\<bar> > float64 (10 ^ 50) then (float64 (num / den), 1) else (num, den))"

text \<open>
  \<open>binom(n, k)\<close> for \<open>0 \<le> n\<close> (the branch of a negative integer \<open>n\<close>, which returns
  \<open>nan\<close>, is not reached from \<open>comb\<close>). For an integer \<open>k\<close>, replaced by \<open>n - k\<close> when that
  is smaller, and below \<open>20\<close>, the result is the quotient of the two products of the
  loop \<open>for i in range(1, 1 + kx)\<close>. Every other argument goes to the evaluation through
  the beta function of cephes, which is the parameter \<open>general\<close>.
\<close>

definition binom :: "(real \<Rightarrow> real \<Rightarrow> real) \<Rightarrow> real \<Rightarrow> real \<Rightarrow> real" where
  "binom general n k =
     (let kx = of_int \<lfloor>k\<rfloor>
      in if k = kx \<and> (\<bar>n\<bar> > float64 (1 / 10 ^ 8) \<or> n = 0)
         then (let nx = of_int \<lfloor>n\<rfloor>;
                   kx = (if nx = n \<and> kx > float64 (nx / 2) \<and> nx > 0
                         then float64 (nx - kx) else kx)
               in if 0 \<le> kx \<and> kx < 20
                  then (let (num, den) = fold (binom_step n kx) [1..<1 + nat \<lfloor>kx\<rfloor>] (1, 1)
                        in float64 (num / den))
                  else general n k)
         else general n k)"

text \<open>
  \<open>special.comb(N, k)\<close>: both integers become doubles, and the value is \<open>0\<close> outside
  \<open>0 \<le> k \<le> N\<close>.
\<close>

definition comb :: "(real \<Rightarrow> real \<Rightarrow> real) \<Rightarrow> nat \<Rightarrow> nat \<Rightarrow> real" where
  "comb general N k =
     (if k \<le> N then binom general (float64 (real N)) (float64 (real k)) else 0)"

text \<open>\<open>int\<close> of a float that is not negative: truncation.\<close>

definition py_int :: "real \<Rightarrow> nat" where
  "py_int x = nat \<lfloor>x\<rfloor>"

definition tab_multi_idx ::
  "(real \<Rightarrow> real \<Rightarrow> real) \<Rightarrow> nat \<Rightarrow> (nat \<times> nat \<times> nat) list" where
  "tab_multi_idx general n_pce =
     concat (map (\<lambda>m. map (\<lambda>m1. (m1, m - m1, py_int (comb general m m1))) [0..<m + 1])
                 [0..<n_pce + 1])"

definition compute_multi_index ::
  "(real \<Rightarrow> real \<Rightarrow> real) \<Rightarrow> nat \<Rightarrow> nat list \<times> nat list \<times> nat list" where
  "compute_multi_index general n_pce =
     (let tab = tab_multi_idx general n_pce
      in (map (\<lambda>t. fst t) tab, map (\<lambda>t. fst (snd t)) tab, map (\<lambda>t. snd (snd t)) tab))"

text \<open>The enumeration in the words of the specification: the triples of one total
  degree \<open>m\<close>, with the binomial coefficient itself, and the degrees \<open>0, \<dots>, n\<close> one
  after the other.\<close>

fun degree_block :: "nat \<Rightarrow> nat \<Rightarrow> (nat \<times> nat \<times> nat) list" where
  "degree_block m 0 = [(0, m, 1)]"
| "degree_block m (Suc j) = degree_block m j @ [(Suc j, m - Suc j, m choose Suc j)]"

fun multi_index_spec :: "nat \<Rightarrow> (nat \<times> nat \<times> nat) list" where
  "multi_index_spec 0 = degree_block 0 0"
| "multi_index_spec (Suc n) = multi_index_spec n @ degree_block (Suc n) (Suc n)"

subsection \<open>Library functions\<close>

text \<open>
  \<open>stats.norm.pdf\<close> is the standard normal density and \<open>stats.norm.cdf\<close> the
  standard normal distribution function, here as the power series of
  \<open>1/2 + \<integral>\<^sub>0\<^sup>x \<phi>\<close>. \<open>special.hermitenorm(n)\<close> is the
  probabilist Hermite polynomial \<open>He\<^sub>n\<close>, by its three-term recurrence.
\<close>

definition norm_pdf :: "real \<Rightarrow> real" where
  "norm_pdf x = exp (- (x\<^sup>2) / 2) / sqrt (2 * pi)"

definition cdf_term :: "real \<Rightarrow> nat \<Rightarrow> real" where
  "cdf_term x n = (- 1) ^ n * x ^ (2 * n + 1) / (fact n * 2 ^ n * real (2 * n + 1))"

definition norm_cdf :: "real \<Rightarrow> real" where
  "norm_cdf x = 1 / 2 + (\<Sum>n. cdf_term x n) / sqrt (2 * pi)"

fun hermitenorm :: "nat \<Rightarrow> real \<Rightarrow> real" where
  "hermitenorm 0 x = 1"
| "hermitenorm (Suc 0) x = x"
| "hermitenorm (Suc (Suc n)) x = x * hermitenorm (Suc n) x - real (Suc n) * hermitenorm n x"

text \<open>
  The quadrature provider \<open>np.polynomial.hermite.hermgauss\<close> and the bivariate normal
  distribution function \<open>stats.multivariate_normal.cdf\<close> are parameters of the
  engines that call them. \<open>hermgauss(n)\<close> returns \<open>n\<close> sample points and their \<open>n\<close>
  weights, a list of pairs here, or raises.
\<close>

type_synonym quadrature = "nat \<Rightarrow> error + (real \<times> real) list"

type_synonym mvn_cdf = "real list \<Rightarrow> real list \<Rightarrow> real list list \<Rightarrow> real"

text \<open>For a diagonal covariance matrix the two components are independent and the
  bivariate distribution function is a product; this is the case \<open>a = 0\<close> of the call in
  \<open>_sigma0_matrix\<close>, and the instance of the parameter at concrete inputs.\<close>

definition mvn_independent :: mvn_cdf where
  "mvn_independent x mean cov =
     norm_cdf ((x ! 0 - mean ! 0) / sqrt (cov ! 0 ! 0))
     * norm_cdf ((x ! 1 - mean ! 1) / sqrt (cov ! 1 ! 1))"

definition gauss_hermite :: "quadrature \<Rightarrow> nat \<Rightarrow> error + (real list \<times> real list)" where
  "gauss_hermite hermgauss n =
     (case hermgauss n of
        Inl e \<Rightarrow> Inl e
      | Inr kw \<Rightarrow> Inr (map (\<lambda>p. fst p * sqrt 2) kw, map (\<lambda>p. snd p / sqrt pi) kw))"

text \<open>The rules of one and of two points as \<open>hermgauss\<close> returns them, for the
  evaluation of the engines at concrete inputs; no other rule is tabulated here.\<close>

definition hermgauss_12 :: quadrature where
  "hermgauss_12 n =
     (if n = 1 then Inr [(0, sqrt pi)]
      else if n = 2 then Inr [(- (1 / sqrt 2), sqrt pi / 2), (1 / sqrt 2, sqrt pi / 2)]
      else Inl QuadratureError)"

subsection \<open>PCE coefficient function\<close>

definition coef_gauss_pce :: "nat \<Rightarrow> real \<Rightarrow> real" where
  "coef_gauss_pce n x =
     (if n = 0 then norm_cdf (- x)
      else norm_pdf x * hermitenorm (n - 1) x / fact n)"

subsection \<open>Analytic moment engine\<close>

text \<open>
  The row that iteration \<open>i\<close> of the loop of \<open>mean_gauss_pce\<close> stores in
  \<open>mean_pce[i, :]\<close>; \<open>(1.0 + a**2) ** 0.5\<close> is the square root. In the last branch
  the source assigns the row and then divides it in place by \<open>1 + a\<^sup>2\<close>.
\<close>

definition mean_pce_row ::
  "real list \<Rightarrow> real list \<Rightarrow> real list \<Rightarrow> real list list \<Rightarrow> nat \<Rightarrow> real list" where
  "mean_pce_row a b x mean_pce i =
     (if i = 0 then map (\<lambda>k. norm_cdf (- (x ! k))) [0..<length a]
      else if i = 1 then
        map (\<lambda>k. exp (- ((x ! k)\<^sup>2) / 2) / sqrt (2 * pi) / sqrt (1 + (a ! k)\<^sup>2)) [0..<length a]
      else if i = 2 then
        map (\<lambda>k. (b ! k / 2) * (mean_pce ! 1 ! k) / (1 + (a ! k)\<^sup>2)) [0..<length a]
      else
        (let row = map (\<lambda>k. (b ! k / real i) * (mean_pce ! (i - 1) ! k)
                          - (real (i - 2) / (real i * (real i - 1))) * (mean_pce ! (i - 2) ! k))
                     [0..<length a]
         in map (\<lambda>k. row ! k / (1 + (a ! k)\<^sup>2)) [0..<length a]))"

definition mean_gauss_pce :: "nat \<Rightarrow> real list \<Rightarrow> real list \<Rightarrow> error + real list list" where
  "mean_gauss_pce n a b =
     (if length a \<noteq> length b then Inl ShapeMismatch
      else
        (let mean_pce = replicate (n + 1) (replicate (length a) 0);
             x = map (\<lambda>k. b ! k / sqrt (1 + (a ! k)\<^sup>2)) [0..<length a]
         in Inr (fold (\<lambda>i m. m[i := mean_pce_row a b x m i]) [0..<n + 1] mean_pce)))"

text \<open>
  The mean in the words of the specification: closed forms for the orders \<open>0\<close>, \<open>1\<close>
  and \<open>2\<close>, and the three-term recursion from order \<open>3\<close> on, for one obligor with
  parameters \<open>a\<close> and \<open>b\<close>. \<open>mean_partial m\<close> is the table of the loop before
  iteration \<open>m\<close>.
\<close>

fun mean_entry :: "real \<Rightarrow> real \<Rightarrow> nat \<Rightarrow> real" where
  "mean_entry a b 0 = norm_cdf (- (b / sqrt (1 + a\<^sup>2)))"
| "mean_entry a b (Suc 0) =
     exp (- ((b / sqrt (1 + a\<^sup>2))\<^sup>2) / 2) / sqrt (2 * pi) / sqrt (1 + a\<^sup>2)"
| "mean_entry a b (Suc (Suc 0)) = (b / 2) * mean_entry a b (Suc 0) / (1 + a\<^sup>2)"
| "mean_entry a b (Suc (Suc (Suc i))) =
     ((b / real (Suc (Suc (Suc i)))) * mean_entry a b (Suc (Suc i))
      - (real (Suc i) / (real (Suc (Suc (Suc i))) * (real (Suc (Suc (Suc i))) - 1)))
        * mean_entry a b (Suc i))
     / (1 + a\<^sup>2)"

definition mean_table :: "nat \<Rightarrow> real list \<Rightarrow> real list \<Rightarrow> real list list" where
  "mean_table n a b =
     map (\<lambda>i. map (\<lambda>k. mean_entry (a ! k) (b ! k) i) [0..<length a]) [0..<n + 1]"

definition mean_partial :: "nat \<Rightarrow> nat \<Rightarrow> real list \<Rightarrow> real list \<Rightarrow> real list list" where
  "mean_partial m n a b =
     map (\<lambda>i. if i < m then map (\<lambda>k. mean_entry (a ! k) (b ! k) i) [0..<length a]
               else replicate (length a) 0) [0..<n + 1]"

text \<open>The first row of the covariance tensor, \<open>_sigma0_matrix\<close>.\<close>

definition sigma0_row ::
  "real list \<Rightarrow> real list \<Rightarrow> real list list \<Rightarrow> real list list \<Rightarrow> real list list \<Rightarrow> nat \<Rightarrow> real list" where
  "sigma0_row a b mu_n mu_n2 sigma0_n i =
     (let tmp = map (\<lambda>k. b ! k * (sigma0_n ! (i - 1) ! k)
                          - (real (i - 2) / real (i - 1)) * (sigma0_n ! (i - 2) ! k))
                    [0..<length a];
          tmp = map (\<lambda>k. tmp ! k - (a ! k)\<^sup>2 * (mu_n ! 1 ! k) * (mu_n2 ! (i - 1) ! k))
                    [0..<length a]
      in map (\<lambda>k. tmp ! k / (real i * (1 + (a ! k)\<^sup>2))) [0..<length a])"

definition sigma0_matrix ::
  "mvn_cdf \<Rightarrow> nat \<Rightarrow> real list \<Rightarrow> real list \<Rightarrow> error + real list list" where
  "sigma0_matrix mvn n a b =
     (let size_a = length a;
          sigma0_n = replicate (n + 1) (replicate size_a 0)
      in case mean_gauss_pce n a b of
           Inl e \<Rightarrow> Inl e
         | Inr mu_n \<Rightarrow>
            (case mean_gauss_pce n (map (\<lambda>k. a ! k / sqrt (1 + (a ! k)\<^sup>2)) [0..<size_a])
                                   (map (\<lambda>k. b ! k / (1 + (a ! k)\<^sup>2)) [0..<size_a]) of
               Inl e \<Rightarrow> Inl e
             | Inr mu_n2 \<Rightarrow>
                (let tmp = map (\<lambda>k. mvn [- (b ! k), - (b ! k)] [0, 0]
                                      [[1 + (a ! k)\<^sup>2, (a ! k)\<^sup>2], [(a ! k)\<^sup>2, 1 + (a ! k)\<^sup>2]])
                               [0..<size_a];
                     sigma0_n = sigma0_n[0 := map (\<lambda>k. tmp ! k - (mu_n ! 0 ! k)\<^sup>2) [0..<size_a]]
                 in if n = 0 then Inr sigma0_n
                    else
                      (let sigma0_n = sigma0_n[1 := map (\<lambda>k. (mu_n ! 1 ! k) * (mu_n2 ! 0 ! k - mu_n ! 0 ! k))
                                                        [0..<size_a]]
                       in if n = 1 then Inr sigma0_n
                          else Inr (fold (\<lambda>i s. s[i := sigma0_row a b mu_n mu_n2 s i])
                                      [2..<n + 1] sigma0_n)))))"

text \<open>
  The covariance tensor \<open>cov_matrix[i, j, k]\<close>. NumPy does not raise on a division by
  zero: it stores \<open>inf\<close> or \<open>nan\<close>, and every sum, difference and product with such an
  operand is \<open>inf\<close> or \<open>nan\<close> again. An entry is therefore a \<^typ>\<open>real option\<close>, and
  \<open>None\<close> is a float that is not finite. The one division of the engines whose divisor
  can be zero is \<open>1 / ((i + 1) * a**2)\<close>.
\<close>

definition fdiv :: "real \<Rightarrow> real \<Rightarrow> real option" where
  "fdiv x y = (if y = 0 then None else Some (x / y))"

definition cov_interior ::
  "real list \<Rightarrow> real list \<Rightarrow> real list list \<Rightarrow> real option list list list \<Rightarrow> nat \<Rightarrow> nat
     \<Rightarrow> real option list" where
  "cov_interior a b mean_vector cov_matrix i j =
     map (\<lambda>k. do {
            r \<leftarrow> fdiv 1 (real (i + 1) * (a ! k)\<^sup>2);
            c2 \<leftarrow> cov_matrix ! i ! (j + 2) ! k;
            c1 \<leftarrow> cov_matrix ! i ! (j + 1) ! k;
            c0 \<leftarrow> cov_matrix ! i ! j ! k;
            Some (r * (- (1 + (a ! k)\<^sup>2) * real (j + 2) * c2
                       + b ! k * c1
                       - (real j / real (j + 1)) * c0)
                  - (mean_vector ! (i + 1) ! k) * (mean_vector ! (j + 1) ! k))
          }) [0..<length a]"

text \<open>The assignment to \<open>cov_matrix[i + 1, j + 1, :]\<close> in the body of the two loops.\<close>

definition cov_store ::
  "real list \<Rightarrow> real list \<Rightarrow> real list list \<Rightarrow> nat \<Rightarrow> nat
     \<Rightarrow> real option list list list \<Rightarrow> real option list list list" where
  "cov_store a b mean_vector i j c =
     c[i + 1 := (c ! (i + 1))[j + 1 := cov_interior a b mean_vector c i j]]"

definition cov_gauss_pce ::
  "mvn_cdf \<Rightarrow> nat \<Rightarrow> real list \<Rightarrow> real list \<Rightarrow> error + real option list list list" where
  "cov_gauss_pce mvn n a b =
     (if length a \<noteq> length b then Inl ShapeMismatch
      else
        (case mean_gauss_pce n a b of
           Inl e \<Rightarrow> Inl e
         | Inr mean_vector \<Rightarrow>
            (case sigma0_matrix mvn n a b of
               Inl e \<Rightarrow> Inl e
             | Inr sigma0 \<Rightarrow>
                (let cov_matrix = replicate (n + 1) (replicate (n + 1) (replicate (length a) (Some 0)));
                     cov_matrix = cov_matrix[0 := map (map Some) sigma0];
                     cov_matrix = map (\<lambda>i. (cov_matrix ! i)[0 := cov_matrix ! 0 ! i]) [0..<n + 1]
                 in Inr (fold (\<lambda>i. fold (cov_store a b mean_vector i) [0..<n - 1])
                              [0..<n] cov_matrix)))))"

subsection \<open>Quadrature moment engine\<close>

text \<open>
  \<open>mean_cov_pce_quad\<close> passes its arguments through \<open>np.atleast_1d\<close>, which turns a
  scalar into an array of one entry and leaves an array as it is.
\<close>

datatype arr_in = Scalar real | Vec "real list"

fun atleast_1d :: "arr_in \<Rightarrow> real list" where
  "atleast_1d (Scalar x) = [x]"
| "atleast_1d (Vec xs) = xs"

text \<open>
  NumPy broadcasting along one axis: two lengths are compatible when they are equal or
  one of them is \<open>1\<close>, and an operand of length \<open>1\<close> is read at index \<open>0\<close>
  throughout.
\<close>

definition bshape :: "nat \<Rightarrow> nat \<Rightarrow> error + nat" where
  "bshape m n =
     (if m = n then Inr m else if m = 1 then Inr n else if n = 1 then Inr m
      else Inl BroadcastError)"

definition bidx :: "nat \<Rightarrow> nat \<Rightarrow> nat" where
  "bidx len i = (if len = 1 then 0 else i)"

definition bget :: "real list \<Rightarrow> nat \<Rightarrow> real" where
  "bget xs i = xs ! bidx (length xs) i"

text \<open>
  \<open>np.tri(N, M, k)\<close>, and \<open>np.triu\<close> and \<open>np.tril\<close> on an array of three axes: NumPy
  builds the mask from the last two axes, \<open>tri(*m.shape[-2:], \<dots>)\<close>, and applies it to
  every slice along the first axis. \<open>(N, M)\<close> is \<open>m.shape[-2:]\<close>.
\<close>

definition np_tri :: "nat \<Rightarrow> nat \<Rightarrow> int \<Rightarrow> bool list list" where
  "np_tri N M k = map (\<lambda>i. map (\<lambda>j. int j \<le> int i + k) [0..<M]) [0..<N]"

definition np_triu :: "nat \<times> nat \<Rightarrow> int \<Rightarrow> real list list list \<Rightarrow> real list list list" where
  "np_triu NM k m =
     (let mask = np_tri (fst NM) (snd NM) (k - 1)
      in map (\<lambda>sl. map (\<lambda>i. map (\<lambda>j. if mask ! i ! j then 0 else sl ! i ! j) [0..<snd NM])
                        [0..<fst NM]) m)"

definition np_tril :: "nat \<times> nat \<Rightarrow> int \<Rightarrow> real list list list \<Rightarrow> real list list list" where
  "np_tril NM k m =
     (let mask = np_tri (fst NM) (snd NM) k
      in map (\<lambda>sl. map (\<lambda>i. map (\<lambda>j. if mask ! i ! j then sl ! i ! j else 0) [0..<snd NM])
                        [0..<fst NM]) m)"

text \<open>\<open>m.transpose(1, 0, 2)\<close> of an array of shape \<open>(A, B, K)\<close>.\<close>

definition transpose_102 :: "nat \<times> nat \<Rightarrow> 'a list list \<Rightarrow> 'a list list" where
  "transpose_102 AB m = map (\<lambda>j. map (\<lambda>i. m ! i ! j) [0..<fst AB]) [0..<snd AB]"

definition add3 :: "real list list list \<Rightarrow> real list list list \<Rightarrow> real list list list" where
  "add3 x y = map2 (map2 (map2 (+))) x y"

text \<open>
  The nested functions of \<open>mean_cov_pce_quad\<close>, with the variables they capture as
  arguments. \<open>K\<close> is the broadcast length of \<open>a\<close> and \<open>b\<close>, and \<open>quad_factor\<close>
  the factor \<open>sig * exp(-0.5 * b**2 / (a**2 + 1)) / (sqrt(2 * pi) * m!)\<close> that the mean
  of order \<open>m \<ge> 2\<close> and the integrand of order \<open>m \<ge> 1\<close> share. \<open>compute_mean_pce\<close>
  stores rows of \<open>K\<close> entries in a table whose rows have \<open>len(a)\<close> entries, which NumPy
  refuses unless \<open>K = len(a)\<close> (\<open>K = 1\<close> only when \<open>len(a) = 1\<close>); the first row is
  stored for every \<open>n_pce\<close>. Each row is assigned once, from the inputs alone.
\<close>

definition quad_factor :: "real list \<Rightarrow> real list \<Rightarrow> real list \<Rightarrow> nat \<Rightarrow> nat \<Rightarrow> real" where
  "quad_factor a b sig m k =
     bget sig k * exp (- 0.5 * (bget b k)\<^sup>2 / ((bget a k)\<^sup>2 + 1)) / (sqrt (2 * pi) * fact m)"

definition mean_quad_row ::
  "real list \<Rightarrow> real list \<Rightarrow> nat \<Rightarrow> real list \<Rightarrow> real list list \<Rightarrow> real list \<Rightarrow> nat
     \<Rightarrow> real list" where
  "mean_quad_row a b K w_he y_he_ab sig m =
     (if m = 0 then
        map (\<lambda>k. norm_cdf (- bget b k / sqrt (1 + (bget a k)\<^sup>2))) [0..<K]
      else if m = 1 then
        map (\<lambda>k. norm_pdf (bget b k / sqrt (1 + (bget a k)\<^sup>2)) / sqrt (1 + (bget a k)\<^sup>2)) [0..<K]
      else
        map (\<lambda>k. (\<Sum>q\<leftarrow>[0..<length w_he]. w_he ! q * hermitenorm (m - 1) (y_he_ab ! q ! k))
                  * quad_factor a b sig m k) [0..<K])"

definition compute_mean_pce ::
  "real list \<Rightarrow> real list \<Rightarrow> nat \<Rightarrow> nat \<Rightarrow> real list \<Rightarrow> real list list \<Rightarrow> real list
     \<Rightarrow> error + real list list" where
  "compute_mean_pce a b n_pce K w_he y_he_ab sig =
     (if K \<noteq> length a then Inl BroadcastError
      else Inr (map (mean_quad_row a b K w_he y_he_ab sig) [0..<n_pce + 1]))"

text \<open>
  \<open>compute_cov_pce\<close>: the two loops store, in a tensor of zeros, the entries
  \<open>[m1, m2, :]\<close> with \<open>m1 \<le> m2\<close>, each once and from the inputs alone (\<open>cov_upper\<close>);
  the last statement adds \<open>np.triu\<close> of that tensor and \<open>np.tril(\<dots>, -1)\<close> of its
  transpose in the first two axes.
\<close>

definition integrand ::
  "real list \<Rightarrow> real list \<Rightarrow> real list list \<Rightarrow> real list list \<Rightarrow> real list
     \<Rightarrow> nat \<Rightarrow> nat \<Rightarrow> nat \<Rightarrow> real" where
  "integrand a b x_he_ab y_he_ab sig m q k =
     (if m = 0 then coef_gauss_pce 0 (x_he_ab ! q ! k)
      else hermitenorm (m - 1) (y_he_ab ! q ! k) * quad_factor a b sig m k)"

definition cov_upper ::
  "real list \<Rightarrow> real list \<Rightarrow> nat \<Rightarrow> nat \<Rightarrow> real list list \<Rightarrow> real list list \<Rightarrow> real list
     \<Rightarrow> real list \<Rightarrow> real list list \<Rightarrow> real list list list" where
  "cov_upper a b n_pce K x_he_ab y_he_ab w_he sig mean_pce_quad =
     map (\<lambda>m1. map (\<lambda>m2.
       if m1 \<le> m2 then
         map (\<lambda>k. (\<Sum>q\<leftarrow>[0..<length w_he].
                       w_he ! q * integrand a b x_he_ab y_he_ab sig m1 q k
                                * integrand a b x_he_ab y_he_ab sig m2 q k)
                   - (mean_pce_quad ! m1 ! k) * (mean_pce_quad ! m2 ! k)) [0..<K]
       else replicate K 0) [0..<n_pce + 1]) [0..<n_pce + 1]"

definition compute_cov_pce ::
  "real list \<Rightarrow> real list \<Rightarrow> nat \<Rightarrow> nat \<Rightarrow> real list list \<Rightarrow> real list list \<Rightarrow> real list
     \<Rightarrow> real list \<Rightarrow> real list list \<Rightarrow> real list list list" where
  "compute_cov_pce a b n_pce K x_he_ab y_he_ab w_he sig mean_pce_quad =
     (let cov_pce_quad = cov_upper a b n_pce K x_he_ab y_he_ab w_he sig mean_pce_quad
      in add3 (np_triu (n_pce + 1, K) 0 cov_pce_quad)
              (np_tril (n_pce + 1, K) (- 1) (transpose_102 (n_pce + 1, n_pce + 1) cov_pce_quad)))"

text \<open>The transformed nodes of \<open>mean_cov_pce_quad\<close>: \<open>x_he_ab\<close>, \<open>mu\<close>, \<open>sig\<close> and
  \<open>y_he_ab\<close>.\<close>

definition quad_x_he_ab :: "real list \<Rightarrow> real list \<Rightarrow> nat \<Rightarrow> real list \<Rightarrow> real list list" where
  "quad_x_he_ab a b K x_he = map (\<lambda>xq. map (\<lambda>k. bget a k * xq + bget b k) [0..<K]) x_he"

definition quad_mu :: "real list \<Rightarrow> real list \<Rightarrow> nat \<Rightarrow> real list" where
  "quad_mu a b K = map (\<lambda>k. - bget a k * bget b k / (1 + (bget a k)\<^sup>2)) [0..<K]"

definition quad_sig :: "real list \<Rightarrow> real list" where
  "quad_sig a = map (\<lambda>k. 1 / sqrt (1 + (a ! k)\<^sup>2)) [0..<length a]"

definition quad_y_he_ab :: "real list \<Rightarrow> real list \<Rightarrow> nat \<Rightarrow> real list \<Rightarrow> real list list" where
  "quad_y_he_ab a b K x_he =
     map (\<lambda>xq. map (\<lambda>k. bget a k * (bget (quad_sig a) k * xq + quad_mu a b K ! k) + bget b k)
                   [0..<K]) x_he"

definition mean_cov_pce_quad ::
  "quadrature \<Rightarrow> arr_in \<Rightarrow> arr_in \<Rightarrow> nat \<Rightarrow> nat
     \<Rightarrow> error + (real list list \<times> real list list list)" where
  "mean_cov_pce_quad hermgauss a0 b0 n_pce n_quad =
     (let a = atleast_1d a0; b = atleast_1d b0
      in case gauss_hermite hermgauss n_quad of
           Inl e \<Rightarrow> Inl e
         | Inr (x_he, w_he) \<Rightarrow>
            (case bshape (length a) (length b) of
               Inl e \<Rightarrow> Inl e
             | Inr K \<Rightarrow>
                (let x_he_ab = quad_x_he_ab a b K x_he;
                     sig = quad_sig a;
                     y_he_ab = quad_y_he_ab a b K x_he
                 in case compute_mean_pce a b n_pce K w_he y_he_ab sig of
                      Inl e \<Rightarrow> Inl e
                    | Inr mean_pce_quad \<Rightarrow>
                        Inr (mean_pce_quad,
                             compute_cov_pce a b n_pce K x_he_ab y_he_ab w_he sig mean_pce_quad))))"

subsection \<open>Portfolio loss aggregator\<close>

text \<open>
  The portfolio parameters, the keyword arguments (a key that is absent is \<open>None\<close>, and
  \<open>kwargs.get(key, default)\<close> is \<open>kw_get default\<close>), and the library the aggregator
  calls: the quadrature provider, \<open>np.linalg.cholesky\<close>, \<open>np.linalg.svd\<close>, and the
  global random generator of NumPy, whose state is passed along explicitly.
  \<open>cholesky\<close> of an \<open>(E, E)\<close> matrix returns an \<open>(E, E)\<close> matrix or raises
  \<open>LinAlgError\<close>; \<open>svd\<close> returns \<open>u\<close> of shape \<open>(E, E)\<close>, the \<open>E\<close> singular values and
  \<open>vh\<close>.
\<close>

record params =
  l1_normalized :: "real list"
  l2_normalized :: "real list"
  mean_a_normalized :: "real list"
  std_a_normalized :: "real list"
  tab_lambda :: "real list"

record kwargs =
  return_mean_cov_eps :: "bool option"
  return_eps_full :: "bool option"
  return_loss_full :: "bool option"
  n_quad :: "nat option"
  seed :: "int option"

definition kw_get :: "'a \<Rightarrow> 'a option \<Rightarrow> 'a" where
  "kw_get d v = (case v of None \<Rightarrow> d | Some x \<Rightarrow> x)"

record 'g numpy =
  hermgauss :: quadrature
  cholesky :: "real list list \<Rightarrow> error + real list list"
  svd :: "real list list \<Rightarrow> error + (real list list \<times> real list \<times> real list list)"
  random_seed :: "int \<Rightarrow> error + 'g"
  standard_normal :: "'g \<Rightarrow> real \<times> 'g"

text \<open>What a call returns: a two-dimensional array, a one-dimensional array, or the
  pair of a mean vector and a covariance matrix.\<close>

datatype returned =
    Matrix "real list list"
  | Vector "real list"
  | Moments "real list" "real list list"

text \<open>\<open>np.random.randn(n)\<close> and \<open>np.random.randn(r, c)\<close>: the draws are taken one
  after the other, row by row.\<close>

fun randn :: "('g \<Rightarrow> real \<times> 'g) \<Rightarrow> nat \<Rightarrow> 'g \<Rightarrow> real list \<times> 'g" where
  "randn draw 0 g = ([], g)"
| "randn draw (Suc n) g =
     (let (z, g1) = draw g; (zs, g2) = randn draw n g1 in (z # zs, g2))"

fun randn2 :: "('g \<Rightarrow> real \<times> 'g) \<Rightarrow> nat \<Rightarrow> nat \<Rightarrow> 'g \<Rightarrow> real list list \<times> 'g" where
  "randn2 draw 0 c g = ([], g)"
| "randn2 draw (Suc r) c g =
     (let (row, g1) = randn draw c g; (rows, g2) = randn2 draw r c g1 in (row # rows, g2))"

text \<open>
  \<open>np.array([l[i] ** tab for i in range(n_firms)]).T\<close>: entry \<open>[e][i]\<close> is
  \<open>l[i] ** tab[e]\<close>. Reading \<open>l[i]\<close> beyond the end of \<open>l\<close> raises \<open>IndexError\<close>.
\<close>

definition firm_powers :: "real list \<Rightarrow> nat list \<Rightarrow> nat \<Rightarrow> error + real list list" where
  "firm_powers l tab n_firms =
     (if length l < n_firms then Inl IndexError
      else Inr (map (\<lambda>e. map (\<lambda>i. l ! i ^ (tab ! e)) [0..<n_firms]) [0..<length tab]))"

text \<open>
  \<open>simulate_vec_eps_full\<close>. The firm axis of the product is the broadcast of the
  lengths of \<open>std_a_normalized\<close>, \<open>mean_a_normalized\<close> and \<open>tab_lambda\<close> with \<open>n_firms\<close>,
  in the order in which the source combines them. For \<open>n_firms = 0\<close> the tables
  \<open>l1_normalized_m1\<close> and \<open>l2_normalized_m2\<close> have one axis only, and
  \<open>l1_normalized_m1[:, :, None]\<close> raises \<open>IndexError\<close>.
\<close>

definition simulate_vec_eps_full ::
  "('g \<Rightarrow> real \<times> 'g) \<Rightarrow> nat \<Rightarrow> nat \<Rightarrow> nat \<Rightarrow> params
     \<Rightarrow> nat list \<Rightarrow> nat list \<Rightarrow> nat list \<Rightarrow> real list list \<Rightarrow> real list list \<Rightarrow> 'g
     \<Rightarrow> error + (real list list \<times> 'g)" where
  "simulate_vec_eps_full draw n_pce n_firms n_mc ps tab_m1 tab_m2 tab_multi
       l1_normalized_m1 l2_normalized_m2 g =
     (let (z, g1) = randn2 draw n_firms n_mc g
      in case bshape (length (std_a_normalized ps)) n_firms of
           Inl e \<Rightarrow> Inl e
         | Inr s1 \<Rightarrow>
        (case bshape (length (mean_a_normalized ps)) s1 of
           Inl e \<Rightarrow> Inl e
         | Inr fa \<Rightarrow>
        (let vec_a = map (\<lambda>i. map (\<lambda>c. bget (mean_a_normalized ps) i
                                      + bget (std_a_normalized ps) i * (z ! bidx n_firms i ! c))
                                [0..<n_mc]) [0..<fa];
             tau_vec_a_m1_m2 =
               map (\<lambda>e. map (\<lambda>i. map (\<lambda>c. coef_gauss_pce (tab_m1 ! e + tab_m2 ! e) (vec_a ! i ! c))
                                       [0..<n_mc]) [0..<fa]) [0..<length tab_m1]
         in case bshape (length (tab_lambda ps)) fa of
              Inl e \<Rightarrow> Inl e
            | Inr s2 \<Rightarrow>
                if n_firms = 0 then Inl IndexError
                else
                  (case bshape s2 n_firms of
                     Inl e \<Rightarrow> Inl e
                   | Inr s3 \<Rightarrow>
                       Inr (map (\<lambda>e. map (\<lambda>c.
                              (\<Sum>i\<leftarrow>[0..<s3].
                                 bget (tab_lambda ps) i
                                 * real (tab_multi ! e)
                                 * (tau_vec_a_m1_m2 ! e ! bidx fa i ! c)
                                 * (l1_normalized_m1 ! e ! bidx n_firms i)
                                 * (l2_normalized_m2 ! e ! bidx n_firms i)))
                              [0..<n_mc]) [0..<length tab_m1], g1)))))"

text \<open>The products of Hermite polynomials \<open>he_m1_m2\<close>: two fresh vectors of draws for
  every multi-index entry.\<close>

fun he_products ::
  "('g \<Rightarrow> real \<times> 'g) \<Rightarrow> nat \<Rightarrow> (nat \<times> nat) list \<Rightarrow> 'g \<Rightarrow> real list list \<times> 'g" where
  "he_products draw n_mc [] g = ([], g)"
| "he_products draw n_mc (mm # rest) g =
     (let (z1, g1) = randn draw n_mc g;
          (z2, g2) = randn draw n_mc g1;
          row = map (\<lambda>c. hermitenorm (fst mm) (z1 ! c) * hermitenorm (snd mm) (z2 ! c)) [0..<n_mc];
          (rows, g3) = he_products draw n_mc rest g2
      in (row # rows, g3))"

text \<open>\<open>np.sum(x * y, axis=0)\<close> of two arrays of shape \<open>(E, n_mc)\<close>.\<close>

definition sum_axis0 :: "nat \<Rightarrow> real list list \<Rightarrow> real list list \<Rightarrow> real list" where
  "sum_axis0 n_mc x y = map (\<lambda>c. (\<Sum>e\<leftarrow>[0..<length x]. x ! e ! c * (y ! e ! c))) [0..<n_mc]"

text \<open>\<open>get_cov_eps\<close>: the mean and the covariance matrix of the vector eps.\<close>

definition get_cov_eps ::
  "quadrature \<Rightarrow> nat \<Rightarrow> nat \<Rightarrow> params \<Rightarrow> kwargs
     \<Rightarrow> nat list \<Rightarrow> nat list \<Rightarrow> nat list \<Rightarrow> real list list \<Rightarrow> real list list
     \<Rightarrow> error + (real list \<times> real list list)" where
  "get_cov_eps hg n_pce n_firms ps kw tab_m1 tab_m2 tab_multi l1_normalized_m1 l2_normalized_m2 =
     (case mean_cov_pce_quad hg (Vec (std_a_normalized ps)) (Vec (mean_a_normalized ps))
             n_pce (kw_get 40 (n_quad kw)) of
        Inl e \<Rightarrow> Inl e
      | Inr (mean_a_pce, cov_a_pce) \<Rightarrow>
     (let ka = length (std_a_normalized ps)
      in case bshape (length (tab_lambda ps)) ka of
           Inl e \<Rightarrow> Inl e
         | Inr t1 \<Rightarrow>
        (case bshape t1 n_firms of
           Inl e \<Rightarrow> Inl e
         | Inr t2 \<Rightarrow>
        (let n_eps = (n_pce + 1) * (n_pce + 2) div 2;
             m12 = (\<lambda>e. tab_m1 ! e + tab_m2 ! e);
             mean_eps =
               map (\<lambda>e. (\<Sum>i\<leftarrow>[0..<t2].
                            real (tab_multi ! e)
                            * bget (tab_lambda ps) i
                            * (mean_a_pce ! m12 e ! bidx ka i)
                            * (l1_normalized_m1 ! e ! bidx n_firms i)
                            * (l2_normalized_m2 ! e ! bidx n_firms i)))
                   [0..<length tab_m1];
             cov_eps =
               map (\<lambda>e. map (\<lambda>f.
                 real (tab_multi ! f) * real (tab_multi ! e)
                 * (\<Sum>i\<leftarrow>[0..<t2].
                      (bget (tab_lambda ps) i)\<^sup>2
                      * (cov_a_pce ! m12 f ! m12 e ! bidx ka i)
                      * (l1_normalized ps ! bidx n_firms i) ^ (tab_m1 ! e)
                      * (l2_normalized ps ! bidx n_firms i) ^ (tab_m2 ! e)
                      * (l1_normalized ps ! bidx n_firms i) ^ (tab_m1 ! f)
                      * (l2_normalized ps ! bidx n_firms i) ^ (tab_m2 ! f)))
                 [0..<n_eps]) [0..<n_eps]
         in Inr (mean_eps, cov_eps)))))"

text \<open>
  \<open>simulate_vec_eps\<close>: the Cholesky factor when \<open>np.linalg.cholesky\<close> returns one, and
  the loop over the components of the decomposition \<open>np.linalg.svd\<close> in the
  \<open>except np.linalg.LinAlgError\<close> branch. \<open>cholesky\<close> is the first statement of the
  \<open>try\<close> block, so nothing is drawn before it raises.
\<close>

definition pca_step ::
  "('g \<Rightarrow> real \<times> 'g) \<Rightarrow> nat \<Rightarrow> real list list \<Rightarrow> real list \<Rightarrow> nat
     \<Rightarrow> real list list \<times> 'g \<Rightarrow> real list list \<times> 'g" where
  "pca_step draw n_mc u_cov_eps eigs_cov_eps idx st =
     (let (vec_eps, g) = st;
          (z, g1) = randn draw n_mc g;
          u_z = map (\<lambda>r. map (\<lambda>c. (u_cov_eps ! r ! idx) * (z ! c)) [0..<n_mc])
                    [0..<length u_cov_eps]
      in (map (\<lambda>r. map (\<lambda>c. vec_eps ! r ! c + sqrt (eigs_cov_eps ! idx) * (u_z ! r ! c)) [0..<n_mc])
              [0..<length vec_eps], g1))"

definition simulate_vec_eps ::
  "'g numpy \<Rightarrow> nat \<Rightarrow> nat \<Rightarrow> real list \<Rightarrow> real list list \<Rightarrow> 'g
     \<Rightarrow> error + (real list list \<times> 'g)" where
  "simulate_vec_eps np n_eps n_mc mean_eps cov_eps g =
     (case cholesky np cov_eps of
        Inr chol_cov_eps \<Rightarrow>
          (let (z, g1) = randn2 (standard_normal np) n_eps n_mc g
           in Inr (map (\<lambda>r. map (\<lambda>c. mean_eps ! r
                                     + (\<Sum>j\<leftarrow>[0..<n_eps]. chol_cov_eps ! r ! j * (z ! j ! c)))
                               [0..<n_mc]) [0..<length chol_cov_eps], g1))
      | Inl LinAlgError \<Rightarrow>
          (case svd np cov_eps of
             Inl e \<Rightarrow> Inl e
           | Inr (u_cov_eps, eigs_cov_eps, vh) \<Rightarrow>
               (let vec_eps = replicate (length eigs_cov_eps) (replicate n_mc 0);
                    (vec_eps, g1) = fold (pca_step (standard_normal np) n_mc u_cov_eps eigs_cov_eps)
                                      [0..<n_eps] (vec_eps, g)
                in Inr (map (\<lambda>r. map (\<lambda>c. vec_eps ! r ! c + mean_eps ! r) [0..<n_mc])
                            [0..<length vec_eps], g1)))
      | Inl e \<Rightarrow> Inl e)"

text \<open>
  \<open>compute_loss_pca_pce\<close>. \<open>vec_eps_full\<close> is bound only when one of the two flags of
  the full simulation is set, so it is an option here, and reading it unbound is
  \<open>NameError\<close>. The first argument is the general branch of \<open>binom\<close>, which
  \<open>compute_multi_index\<close> needs.
\<close>

definition compute_loss_pca_pce ::
  "(real \<Rightarrow> real \<Rightarrow> real) \<Rightarrow> 'g numpy \<Rightarrow> nat \<Rightarrow> nat \<Rightarrow> nat \<Rightarrow> params \<Rightarrow> kwargs \<Rightarrow> 'g
     \<Rightarrow> error + (returned \<times> 'g)" where
  "compute_loss_pca_pce general np n_pce n_firms n_mc ps kw g0 =
     (case (case seed kw of None \<Rightarrow> Inr g0 | Some sd \<Rightarrow> random_seed np sd) of
        Inl e \<Rightarrow> Inl e
      | Inr g \<Rightarrow>
     (let (tab_m1, tab_m2, tab_multi) = compute_multi_index general n_pce
      in case firm_powers (l1_normalized ps) tab_m1 n_firms of
           Inl e \<Rightarrow> Inl e
         | Inr l1_normalized_m1 \<Rightarrow>
        (case firm_powers (l2_normalized ps) tab_m2 n_firms of
           Inl e \<Rightarrow> Inl e
         | Inr l2_normalized_m2 \<Rightarrow>
        (case (if kw_get False (return_eps_full kw) \<or> kw_get False (return_loss_full kw)
               then (case simulate_vec_eps_full (standard_normal np) n_pce n_firms n_mc ps
                            tab_m1 tab_m2 tab_multi l1_normalized_m1 l2_normalized_m2 g of
                       Inl e \<Rightarrow> Inl e
                     | Inr (v, g1) \<Rightarrow> Inr (Some v, g1))
               else Inr (None, g)) of
           Inl e \<Rightarrow> Inl e
         | Inr (vec_eps_full, g1) \<Rightarrow>
             if (kw_get False (return_eps_full kw) \<or> kw_get False (return_loss_full kw))
                \<and> kw_get False (return_eps_full kw)
             then (case vec_eps_full of None \<Rightarrow> Inl NameError | Some v \<Rightarrow> Inr (Matrix v, g1))
             else
               (let (he_m1_m2, g2) =
                      he_products (standard_normal np) n_mc
                        (map (\<lambda>i. (tab_m1 ! i, tab_m2 ! i)) [0..<(n_pce + 1) * (n_pce + 2) div 2]) g1
                in if kw_get False (return_loss_full kw)
                   then (case vec_eps_full of
                           None \<Rightarrow> Inl NameError
                         | Some v \<Rightarrow> Inr (Vector (sum_axis0 n_mc v he_m1_m2), g2))
                   else if kw_get False (return_mean_cov_eps kw)
                   then
                     (case get_cov_eps (hermgauss np) n_pce n_firms ps kw tab_m1 tab_m2 tab_multi
                             l1_normalized_m1 l2_normalized_m2 of
                        Inl e \<Rightarrow> Inl e
                      | Inr (mean_eps, cov_eps) \<Rightarrow> Inr (Moments mean_eps cov_eps, g2))
                   else
                     (case get_cov_eps (hermgauss np) n_pce n_firms ps kw tab_m1 tab_m2 tab_multi
                             l1_normalized_m1 l2_normalized_m2 of
                        Inl e \<Rightarrow> Inl e
                      | Inr (mean_eps, cov_eps) \<Rightarrow>
                          (case simulate_vec_eps np ((n_pce + 1) * (n_pce + 2) div 2) n_mc
                                  mean_eps cov_eps g2 of
                             Inl e \<Rightarrow> Inl e
                           | Inr (vec_eps, g3) \<Rightarrow>
                               Inr (Vector (sum_axis0 n_mc vec_eps he_m1_m2), g3))))))))"

text \<open>
  The two early returns of the full simulation, each as the sequence of the steps that
  precede it and nothing else: seeding, the multi-index table, the two tables of powers,
  \<open>simulate_vec_eps_full\<close> and, for the raw loss, the products of Hermite polynomials.
  Neither depends on the other flags, on \<open>n_quad\<close>, or on the quadrature provider,
  \<open>cholesky\<close> and \<open>svd\<close>.
\<close>

definition eps_full_path ::
  "(real \<Rightarrow> real \<Rightarrow> real) \<Rightarrow> (int \<Rightarrow> error + 'g) \<Rightarrow> ('g \<Rightarrow> real \<times> 'g) \<Rightarrow> nat \<Rightarrow> nat \<Rightarrow> nat
     \<Rightarrow> params \<Rightarrow> int option \<Rightarrow> 'g
     \<Rightarrow> error + (real list list \<times> nat list \<times> nat list \<times> 'g)" where
  "eps_full_path general rseed draw n_pce n_firms n_mc ps sd g0 =
     (case (case sd of None \<Rightarrow> Inr g0 | Some x \<Rightarrow> rseed x) of
        Inl e \<Rightarrow> Inl e
      | Inr g \<Rightarrow>
     (let (tab_m1, tab_m2, tab_multi) = compute_multi_index general n_pce
      in case firm_powers (l1_normalized ps) tab_m1 n_firms of
           Inl e \<Rightarrow> Inl e
         | Inr l1_normalized_m1 \<Rightarrow>
        (case firm_powers (l2_normalized ps) tab_m2 n_firms of
           Inl e \<Rightarrow> Inl e
         | Inr l2_normalized_m2 \<Rightarrow>
        (case simulate_vec_eps_full draw n_pce n_firms n_mc ps
                tab_m1 tab_m2 tab_multi l1_normalized_m1 l2_normalized_m2 g of
           Inl e \<Rightarrow> Inl e
         | Inr (v, g1) \<Rightarrow> Inr (v, tab_m1, tab_m2, g1)))))"

definition return_eps_full_path ::
  "(real \<Rightarrow> real \<Rightarrow> real) \<Rightarrow> (int \<Rightarrow> error + 'g) \<Rightarrow> ('g \<Rightarrow> real \<times> 'g) \<Rightarrow> nat \<Rightarrow> nat \<Rightarrow> nat
     \<Rightarrow> params \<Rightarrow> int option \<Rightarrow> 'g \<Rightarrow> error + (returned \<times> 'g)" where
  "return_eps_full_path general rseed draw n_pce n_firms n_mc ps sd g0 =
     (case eps_full_path general rseed draw n_pce n_firms n_mc ps sd g0 of
        Inl e \<Rightarrow> Inl e
      | Inr (vec_eps_full, tab_m1, tab_m2, g1) \<Rightarrow> Inr (Matrix vec_eps_full, g1))"

definition return_loss_full_path ::
  "(real \<Rightarrow> real \<Rightarrow> real) \<Rightarrow> (int \<Rightarrow> error + 'g) \<Rightarrow> ('g \<Rightarrow> real \<times> 'g) \<Rightarrow> nat \<Rightarrow> nat \<Rightarrow> nat
     \<Rightarrow> params \<Rightarrow> int option \<Rightarrow> 'g \<Rightarrow> error + (returned \<times> 'g)" where
  "return_loss_full_path general rseed draw n_pce n_firms n_mc ps sd g0 =
     (case eps_full_path general rseed draw n_pce n_firms n_mc ps sd g0 of
        Inl e \<Rightarrow> Inl e
      | Inr (vec_eps_full, tab_m1, tab_m2, g1) \<Rightarrow>
          (let (he_m1_m2, g2) =
                 he_products draw n_mc
                   (map (\<lambda>i. (tab_m1 ! i, tab_m2 ! i)) [0..<(n_pce + 1) * (n_pce + 2) div 2]) g1
           in Inr (Vector (sum_axis0 n_mc vec_eps_full he_m1_m2), g2)))"

text \<open>
  An instance of the library for the evaluation at concrete inputs: the rules of one and
  two points, \<open>cholesky\<close> and \<open>svd\<close> on matrices of one row and one column (no other
  matrix is tabulated), and a generator whose state counts the draws and whose \<open>g\<close>-th
  draw is \<open>g\<close>. For the general branch of \<open>binom\<close> the instance is the binomial
  coefficient itself.
\<close>

definition binom_exact :: "real \<Rightarrow> real \<Rightarrow> real" where
  "binom_exact n k = real (nat \<lfloor>n\<rfloor> choose nat \<lfloor>k\<rfloor>)"

definition numpy_1x1 :: "nat numpy" where
  "numpy_1x1 =
     \<lparr>hermgauss = hermgauss_12,
      cholesky = (\<lambda>m. case m of [[x]] \<Rightarrow> if 0 < x then Inr [[sqrt x]] else Inl LinAlgError
                         | _ \<Rightarrow> Inl LinAlgError),
      svd = (\<lambda>m. case m of [[x]] \<Rightarrow> if 0 \<le> x then Inr ([[1]], [x], [[1]]) else Inl LinAlgError
                    | _ \<Rightarrow> Inl LinAlgError),
      random_seed = (\<lambda>s. Inr 0),
      standard_normal = (\<lambda>g. (real g, Suc g))\<rparr>"

definition one_firm :: params where
  "one_firm =
     \<lparr>l1_normalized = [1], l2_normalized = [1], mean_a_normalized = [0],
      std_a_normalized = [1], tab_lambda = [1]\<rparr>"

subsection \<open>Rounding to float64\<close>

lemma round_half_even_of_int: "round_half_even (of_int k) = k"
  by (simp add: round_half_even_def)

lemma float64_eval:
  assumes "0 < x" "2 powr of_int e \<le> x" "x < 2 powr of_int (e + 1)"
  shows "float64 x = of_int (round_half_even (x * 2 powr of_int (52 - e))) * 2 powr of_int (e - 52)"
proof -
  have "\<lfloor>log 2 x\<rfloor> = e"
    using assms by (simp add: floor_log_eq_powr_iff)
  then show ?thesis
    using assms(1) by (simp add: float64_def Let_def)
qed

text \<open>The two forms in which a concrete value is rounded: between \<open>2 ^ (52 + d)\<close> and
  \<open>2 ^ (53 + d)\<close> the doubles are \<open>2 ^ d\<close> apart, and between \<open>2 ^ 52 / 2 ^ d\<close> and
  \<open>2 ^ 53 / 2 ^ d\<close> they are \<open>1 / 2 ^ d\<close> apart.\<close>

lemma float64_ge:
  assumes "2 ^ (52 + d) \<le> x" "x < 2 ^ (53 + d)"
  shows "float64 x = of_int (round_half_even (x / 2 ^ d)) * 2 ^ d"
proof -
  have "(0::real) < 2 ^ (52 + d)"
    by simp
  then have pos: "0 < x"
    using assms(1) by linarith
  have "float64 x = of_int (round_half_even (x * 2 powr of_int (52 - (52 + int d))))
                      * 2 powr of_int ((52 + int d) - 52)"
    using assms
    by (intro float64_eval[OF pos]) (simp_all add: powr_realpow[symmetric] powr_add algebra_simps)
  then show ?thesis
    by (simp add: powr_minus powr_realpow[symmetric] field_simps)
qed

lemma float64_le:
  assumes "2 ^ 52 / 2 ^ d \<le> x" "x < 2 ^ 53 / 2 ^ d"
  shows "float64 x = of_int (round_half_even (x * 2 ^ d)) / 2 ^ d"
proof -
  have "(0::real) < 2 ^ 52 / 2 ^ d"
    by simp
  then have pos: "0 < x"
    using assms(1) by linarith
  have "float64 x = of_int (round_half_even (x * 2 powr of_int (52 - (52 - int d))))
                      * 2 powr of_int ((52 - int d) - 52)"
    using assms
    by (intro float64_eval[OF pos])
       (simp_all add: powr_realpow[symmetric] powr_diff powr_add algebra_simps)
  then show ?thesis
    by (simp add: powr_minus powr_realpow[symmetric] field_simps)
qed

lemma float64_0: "float64 0 = 0"
  by (simp add: float64_def)

text \<open>A positive integer below \<open>2 ^ 53\<close> is a double.\<close>

lemma float64_of_int:
  assumes "0 < m" "m < 2 ^ 53"
  shows "float64 (of_int m) = of_int m"
proof -
  let ?x = "real_of_int m"
  define e where "e = \<lfloor>log 2 ?x\<rfloor>"
  have pos: "0 < ?x"
    using assms(1) by simp
  have b: "2 powr of_int e \<le> ?x" "?x < 2 powr of_int (e + 1)"
    using floor_log_eq_powr_iff[of ?x 2 e] pos by (simp_all add: e_def)
  have "1 \<le> ?x"
    using assms(1) by simp
  then have "0 \<le> log 2 ?x"
    by simp
  then have e0: "0 \<le> e"
    by (simp add: e_def)
  have "?x < 2 powr 53"
    using assms(2)
    by (metis of_int_less_iff of_int_numeral of_int_power powr_realpow zero_less_numeral
        numeral_One of_nat_numeral)
  then have "2 powr of_int e < (2::real) powr 53"
    using b(1) by linarith
  then have "of_int e < (53::real)"
    by (rule powr_less_cancel) simp
  then have e52: "e \<le> 52"
    by linarith
  define d where "d = nat (52 - e)"
  have d: "52 - e = int d"
    using e52 by (simp add: d_def)
  have ed: "e - 52 = - int d"
    using d by linarith
  have "?x * 2 powr of_int (52 - e) = of_int (m * 2 ^ d)"
    by (simp add: d powr_realpow)
  then have "round_half_even (?x * 2 powr of_int (52 - e)) = m * 2 ^ d"
    by (simp only: round_half_even_of_int)
  then have "float64 ?x = of_int (m * 2 ^ d) * 2 powr of_int (e - 52)"
    using float64_eval[OF pos b] by simp
  also have "\<dots> = ?x"
    by (simp add: ed powr_minus powr_realpow field_simps)
  finally show ?thesis .
qed

lemma float64_numeral: "numeral w < (2::int) ^ 53 \<Longrightarrow> float64 (numeral w) = numeral w"
  using float64_of_int[of "numeral w"] by simp

lemma float64_1: "float64 1 = 1"
  using float64_of_int[of 1] by simp

text \<open>The two literals of \<open>binom\<close>, \<open>1e50\<close> and \<open>1e-8\<close>, as doubles.\<close>

lemma float64_1e50:
  "float64 100000000000000000000000000000000000000000000000000 =
     100000000000000007629769841091887003294964970946560"
  by (subst float64_ge[of 114]) (simp_all add: round_half_even_def Let_def)

lemma float64_1e_8: "float64 (1 / 100000000) = 6044629098073146 / 2 ^ 79"
  by (subst float64_le[of 79]) (simp_all add: round_half_even_def Let_def)

subsection \<open>The multi-index table and the enumeration of the specification\<close>

lemma comb_0_0: "comb general 0 0 = 1"
  by (simp add: comb_def binom_def float64_0 float64_1)

text \<open>
  \<open>special.comb(31, 14)\<close>. The products of the loop are exact up to its last pass: there
  \<open>745747076954880000 * 31 = 23118159385601280000\<close> lies halfway between two doubles,
  \<open>4096\<close> apart, and is rounded to the even one below. The quotient by \<open>14!\<close> is then
  nearer to the double below \<open>265182525\<close> than to \<open>265182525\<close>.
\<close>

lemma float64_half_31: "float64 (31 / 2) = 31 / 2"
  by (subst float64_le[of 49]) (simp_all add: round_half_even_def Let_def)

lemma upt_1_15: "[1..<15] = [1, 2, 3, 4, 5, 6, 7, 8, 9, 10, 11, 12, 13, 14::nat]"
  by (simp add: upt_rec)

lemma float64_num_12: "float64 24858235898496000 = 24858235898496000"
  by (subst float64_ge[of 2]) (simp_all add: round_half_even_def Let_def)

lemma float64_num_13: "float64 745747076954880000 = 745747076954880000"
  by (subst float64_ge[of 7]) (simp_all add: round_half_even_def Let_def)

lemma float64_num_14: "float64 23118159385601280000 = 23118159385601277952"
  by (subst float64_ge[of 12]) (simp_all add: round_half_even_def Let_def)

lemma float64_quotient_31_14:
  "float64 (11288163762500624 / 42567525) = 8898049002700799 / 33554432"
  by (subst float64_le[of 25]) (simp_all add: round_half_even_def Let_def)

lemma binom_loop_31_14:
  "fold (binom_step 31 14) [1..<15] (1, 1) = (23118159385601277952, 87178291200)"
  unfolding upt_1_15
  by (simp add: binom_step_def Let_def float64_numeral float64_1 float64_1e50
      float64_num_12 float64_num_13 float64_num_14)

lemma comb_31_14: "comb general 31 14 = 8898049002700799 / 33554432"
  by (simp add: comb_def binom_def Let_def float64_numeral float64_1e_8 float64_half_31
      binom_loop_31_14[unfolded One_nat_def] float64_quotient_31_14)

lemma py_int_comb_31_14: "py_int (comb general 31 14) = 265182524"
  by (simp add: comb_31_14 py_int_def)

lemma choose_31_14: "(31 choose 14) = (265182525::nat)"
  by (simp add: binomial_fact' fact_numeral)

lemma tab_multi_idx_Suc:
  "tab_multi_idx general (Suc n) =
     tab_multi_idx general n
       @ map (\<lambda>m1. (m1, Suc n - m1, py_int (comb general (Suc n) m1))) [0..<Suc n + 1]"
  by (simp add: tab_multi_idx_def)

lemma length_tab_multi_idx2: "2 * length (tab_multi_idx general n) = (n + 1) * (n + 2)"
proof (induction n)
  case 0
  show ?case by (simp add: tab_multi_idx_def)
next
  case (Suc n)
  then show ?case by (simp add: tab_multi_idx_Suc)
qed

lemma length_tab_multi_idx: "length (tab_multi_idx general n) = (n + 1) * (n + 2) div 2"
  using length_tab_multi_idx2[of general n] by simp

lemma triangle_position:
  fixes m n m1 :: nat
  assumes "m \<le> n" "m1 \<le> m"
  shows "2 * (m * (m + 1) div 2 + m1) < (n + 1) * (n + 2)"
proof -
  have "2 * (m * (m + 1) div 2) = m * (m + 1)"
    by simp
  moreover have "m * (m + 1) + 2 * m1 < (n + 1) * (n + 2)"
  proof -
    have "m * (m + 1) + 2 * m1 \<le> m * (m + 1) + 2 * m"
      using assms by simp
    also have "\<dots> < (m + 1) * (m + 2)"
      by simp
    also have "\<dots> \<le> (n + 1) * (n + 2)"
      using assms by (intro mult_le_mono) simp_all
    finally show ?thesis .
  qed
  ultimately show ?thesis
    by simp
qed

lemma nth_tab_multi_idx:
  "m \<le> n \<Longrightarrow> m1 \<le> m \<Longrightarrow>
   tab_multi_idx general n ! (m * (m + 1) div 2 + m1) = (m1, m - m1, py_int (comb general m m1))"
proof (induction n)
  case 0
  then show ?case by (simp add: tab_multi_idx_def)
next
  case (Suc n)
  show ?case
  proof (cases "m = Suc n")
    case True
    have "length (tab_multi_idx general n) = m * (m + 1) div 2"
      using True length_tab_multi_idx[of general n] by (simp add: algebra_simps)
    then show ?thesis
      using Suc.prems True by (simp add: tab_multi_idx_Suc nth_append del: upt_Suc)
  next
    case False
    then have mn: "m \<le> n"
      using Suc.prems by simp
    have "2 * (m * (m + 1) div 2 + m1) < 2 * length (tab_multi_idx general n)"
      using triangle_position[OF mn Suc.prems(2)] length_tab_multi_idx2[of general n] by simp
    then have "m * (m + 1) div 2 + m1 < length (tab_multi_idx general n)"
      by simp
    then show ?thesis
      using Suc.IH[OF mn Suc.prems(2)] by (simp add: tab_multi_idx_Suc nth_append del: upt_Suc)
  qed
qed

lemma degree_block_eq:
  "degree_block m j = map (\<lambda>m1. (m1, m - m1, m choose m1)) [0..<Suc j]"
  by (induction j) simp_all

lemma length_degree_block: "length (degree_block m j) = Suc j"
  by (induction j) simp_all

lemma length_multi_index_spec2: "2 * length (multi_index_spec n) = (n + 1) * (n + 2)"
  by (induction n) (simp_all add: length_degree_block)

lemma length_multi_index_spec: "length (multi_index_spec n) = (n + 1) * (n + 2) div 2"
  using length_multi_index_spec2[of n] by simp

lemma nth_degree_block:
  "m1 \<le> j \<Longrightarrow> degree_block m j ! m1 = (m1, m - m1, m choose m1)"
  by (simp add: degree_block_eq del: upt_Suc)

lemma nth_multi_index_spec:
  "m \<le> n \<Longrightarrow> m1 \<le> m \<Longrightarrow>
   multi_index_spec n ! (m * (m + 1) div 2 + m1) = (m1, m - m1, m choose m1)"
proof (induction n)
  case 0
  then show ?case by simp
next
  case (Suc n)
  show ?case
  proof (cases "m = Suc n")
    case True
    have "length (multi_index_spec n) = m * (m + 1) div 2"
      using True length_multi_index_spec[of n] by (simp add: algebra_simps)
    then show ?thesis
      using Suc.prems True by (simp add: nth_append nth_degree_block del: degree_block.simps)
  next
    case False
    then have mn: "m \<le> n"
      using Suc.prems by simp
    have "2 * (m * (m + 1) div 2 + m1) < 2 * length (multi_index_spec n)"
      using triangle_position[OF mn Suc.prems(2)] length_multi_index_spec2[of n] by simp
    then have "m * (m + 1) div 2 + m1 < length (multi_index_spec n)"
      by simp
    then show ?thesis
      using Suc.IH[OF mn Suc.prems(2)] by (simp add: nth_append)
  qed
qed

text \<open>The two sequences of indices are those of the specification, for every order and
  whatever the floats are.\<close>

lemma tab_multi_idx_indices:
  "map (\<lambda>t. fst t) (tab_multi_idx general n) = map (\<lambda>t. fst t) (multi_index_spec n)
   \<and> map (\<lambda>t. fst (snd t)) (tab_multi_idx general n) = map (\<lambda>t. fst (snd t)) (multi_index_spec n)"
proof (induction n)
  case 0
  show ?case by (simp add: tab_multi_idx_def)
next
  case (Suc n)
  then show ?case
    by (simp add: tab_multi_idx_Suc degree_block_eq comp_def del: degree_block.simps upt_Suc)
qed

text \<open>
  Claim C6. For every order \<open>n_pce\<close> the function returns three sequences of length
  \<open>(n_pce + 1) (n_pce + 2) / 2\<close>, without a failing branch, and the first two are the
  sequences of \<open>m1\<close> and of \<open>m - m1\<close> in the order of the enumeration, where the triple
  of \<open>(m, m1)\<close> stands at position \<open>m (m + 1) / 2 + m1\<close>. The third sequence is not the
  sequence of the binomial coefficients: for \<open>n_pce = 31\<close>, at position
  \<open>510 = 31 \<cdot> 32 / 2 + 14\<close>, where the enumeration has \<open>C(31, 14) = 265182525\<close>, the function
  returns \<open>265182524\<close>. There \<open>special.comb\<close> returns the double next below \<open>265182525\<close>,
  \<open>8898049002700799 / 2 ^ 25 = 265182524.99999997\<close>, which \<open>int\<close> truncates.
\<close>

theorem compute_multi_index_truncates_binomial:
  "fst (compute_multi_index general n_pce) = map (\<lambda>t. fst t) (multi_index_spec n_pce)
   \<and> fst (snd (compute_multi_index general n_pce)) = map (\<lambda>t. fst (snd t)) (multi_index_spec n_pce)
   \<and> length (fst (compute_multi_index general n_pce)) = (n_pce + 1) * (n_pce + 2) div 2
   \<and> length (fst (snd (compute_multi_index general n_pce))) = (n_pce + 1) * (n_pce + 2) div 2
   \<and> length (snd (snd (compute_multi_index general n_pce))) = (n_pce + 1) * (n_pce + 2) div 2
   \<and> comb general 31 14 = 8898049002700799 / 2 ^ 25
   \<and> snd (snd (compute_multi_index general 31)) ! 510 = 265182524
   \<and> multi_index_spec 31 ! 510 = (14, 17, 265182525)
   \<and> (31 choose 14) = (265182525::nat)"
proof -
  have idx: "fst (compute_multi_index general n_pce) = map (\<lambda>t. fst t) (multi_index_spec n_pce)"
    "fst (snd (compute_multi_index general n_pce)) = map (\<lambda>t. fst (snd t)) (multi_index_spec n_pce)"
    using tab_multi_idx_indices[of general n_pce] by (simp_all add: compute_multi_index_def Let_def)
  have len: "length (fst (compute_multi_index general n_pce)) = (n_pce + 1) * (n_pce + 2) div 2"
    "length (fst (snd (compute_multi_index general n_pce))) = (n_pce + 1) * (n_pce + 2) div 2"
    "length (snd (snd (compute_multi_index general n_pce))) = (n_pce + 1) * (n_pce + 2) div 2"
    using length_tab_multi_idx[of general n_pce] by (simp_all add: compute_multi_index_def Let_def)
  have c: "comb general 31 14 = 8898049002700799 / 2 ^ 25"
    by (simp add: comb_31_14)
  have "(510::nat) < length (tab_multi_idx general 31)"
    by (simp add: length_tab_multi_idx)
  moreover have "tab_multi_idx general 31 ! (31 * (31 + 1) div 2 + 14)
                   = (14, 31 - 14, py_int (comb general 31 14))"
    by (rule nth_tab_multi_idx) simp_all
  ultimately have code: "snd (snd (compute_multi_index general 31)) ! 510 = 265182524"
    by (simp add: compute_multi_index_def Let_def py_int_comb_31_14)
  have "multi_index_spec 31 ! (31 * (31 + 1) div 2 + 14) = (14, 31 - 14, 31 choose 14)"
    by (rule nth_multi_index_spec) simp_all
  then have spec: "multi_index_spec 31 ! 510 = (14, 17, 265182525)"
    by (simp add: choose_31_14)
  show ?thesis
    using idx len c code spec choose_31_14 by blast
qed

subsection \<open>The loop of the analytic mean computes the recursion\<close>

lemma nth_mean_partial:
  "i \<le> n \<Longrightarrow> mean_partial m n a b ! i =
     (if i < m then map (\<lambda>k. mean_entry (a ! k) (b ! k) i) [0..<length a]
      else replicate (length a) 0)"
  unfolding mean_partial_def by (simp del: upt_Suc)

lemma length_mean_partial: "length (mean_partial m n a b) = n + 1"
  unfolding mean_partial_def by simp

lemma mean_pce_row_partial:
  assumes "m \<le> n"
  shows "mean_pce_row a b (map (\<lambda>k. b ! k / sqrt (1 + (a ! k)\<^sup>2)) [0..<length a])
           (mean_partial m n a b) m
         = map (\<lambda>k. mean_entry (a ! k) (b ! k) m) [0..<length a]"
proof -
  consider "m = 0" | "m = 1" | "m = 2" | i where "m = Suc (Suc (Suc i))"
    by (metis One_nat_def Suc_1 not0_implies_Suc)
  then show ?thesis
  proof cases
    case 1 then show ?thesis by (simp add: mean_pce_row_def)
  next
    case 2 then show ?thesis by (simp add: mean_pce_row_def)
  next
    case 3
    have "mean_partial m n a b ! 1 = map (\<lambda>k. mean_entry (a ! k) (b ! k) 1) [0..<length a]"
      using assms 3 by (subst nth_mean_partial) simp_all
    then show ?thesis using 3
      by (simp add: mean_pce_row_def numeral_2_eq_2 del: mean_entry.simps(2))
  next
    case 4
    have r1: "mean_partial m n a b ! (m - 1) = map (\<lambda>k. mean_entry (a ! k) (b ! k) (m - 1)) [0..<length a]"
      using assms 4 by (subst nth_mean_partial) simp_all
    have r2: "mean_partial m n a b ! (m - 2) = map (\<lambda>k. mean_entry (a ! k) (b ! k) (m - 2)) [0..<length a]"
      using assms 4 by (subst nth_mean_partial) simp_all
    have m3: "m \<noteq> 0" "m \<noteq> 1" "m \<noteq> 2" using 4 by simp_all
    have "mean_pce_row a b (map (\<lambda>k. b ! k / sqrt (1 + (a ! k)\<^sup>2)) [0..<length a])
           (mean_partial m n a b) m
        = map (\<lambda>k. ((b ! k / real m) * mean_entry (a ! k) (b ! k) (m - 1)
                     - (real (m - 2) / (real m * (real m - 1))) * mean_entry (a ! k) (b ! k) (m - 2))
                    / (1 + (a ! k)\<^sup>2)) [0..<length a]"
      unfolding mean_pce_row_def Let_def r1 r2 using m3 by simp
    also have "\<dots> = map (\<lambda>k. mean_entry (a ! k) (b ! k) m) [0..<length a]"
      unfolding 4 by simp
    finally show ?thesis .
  qed
qed

lemma mean_partial_step:
  assumes "m \<le> n"
  shows "(mean_partial m n a b)[m := map (\<lambda>k. mean_entry (a ! k) (b ! k) m) [0..<length a]]
         = mean_partial (Suc m) n a b"
proof (rule nth_equalityI)
  show "length ((mean_partial m n a b)[m := map (\<lambda>k. mean_entry (a ! k) (b ! k) m) [0..<length a]])
        = length (mean_partial (Suc m) n a b)"
    by (simp add: length_mean_partial)
next
  fix i assume "i < length ((mean_partial m n a b)[m := map (\<lambda>k. mean_entry (a ! k) (b ! k) m) [0..<length a]])"
  then have "i \<le> n" by (simp add: length_mean_partial)
  then show "(mean_partial m n a b)[m := map (\<lambda>k. mean_entry (a ! k) (b ! k) m) [0..<length a]] ! i
        = mean_partial (Suc m) n a b ! i"
    using assms by (auto simp: nth_list_update length_mean_partial nth_mean_partial)
qed

lemma mean_fold_partial:
  "m \<le> n + 1 \<Longrightarrow>
   fold (\<lambda>i t. t[i := mean_pce_row a b (map (\<lambda>k. b ! k / sqrt (1 + (a ! k)\<^sup>2)) [0..<length a]) t i])
        [0..<m] (replicate (n + 1) (replicate (length a) 0))
   = mean_partial m n a b"
proof (induction m)
  case 0
  have "replicate (n + 1) (replicate (length a) (0::real)) = mean_partial 0 n a b"
    by (rule nth_equalityI) (simp_all add: length_mean_partial nth_mean_partial del: replicate_Suc)
  then show ?case by simp
next
  case (Suc m)
  then have mn: "m \<le> n" by simp
  have "fold (\<lambda>i t. t[i := mean_pce_row a b (map (\<lambda>k. b ! k / sqrt (1 + (a ! k)\<^sup>2)) [0..<length a]) t i])
        [0..<Suc m] (replicate (n + 1) (replicate (length a) 0))
      = (mean_partial m n a b)[m := mean_pce_row a b (map (\<lambda>k. b ! k / sqrt (1 + (a ! k)\<^sup>2)) [0..<length a]) (mean_partial m n a b) m]"
    using Suc by simp
  also have "\<dots> = mean_partial (Suc m) n a b"
    unfolding mean_pce_row_partial[OF mn] by (rule mean_partial_step[OF mn])
  finally show ?case .
qed

lemma mean_gauss_pce_table:
  "length a = length b \<Longrightarrow> mean_gauss_pce n a b = Inr (mean_table n a b)"
proof -
  assume "length a = length b"
  have "mean_partial (n + 1) n a b = mean_table n a b"
    by (simp add: mean_partial_def mean_table_def del: upt_Suc)
  then show ?thesis
    using \<open>length a = length b\<close> mean_fold_partial[of "n + 1" n a b]
    unfolding mean_gauss_pce_def Let_def by simp
qed

lemma nth_mean_table:
  "i \<le> n \<Longrightarrow> k < length a \<Longrightarrow> mean_table n a b ! i ! k = mean_entry (a ! k) (b ! k) i"
  unfolding mean_table_def by (simp del: upt_Suc)

lemma length_mean_table: "length (mean_table n a b) = n + 1"
  unfolding mean_table_def by simp

lemma length_nth_mean_table: "i \<le> n \<Longrightarrow> length (mean_table n a b ! i) = length a"
  unfolding mean_table_def by (simp del: upt_Suc)

lemma mean_entry_rec:
  "3 \<le> i \<Longrightarrow> mean_entry a b i =
     ((b / real i) * mean_entry a b (i - 1)
      - (real (i - 2) / (real i * real (i - 1))) * mean_entry a b (i - 2)) / (1 + a\<^sup>2)"
proof -
  assume "3 \<le> i"
  then obtain j where j: "i = Suc (Suc (Suc j))"
    by (metis Suc_le_D numeral_3_eq_3 Suc_le_mono)
  show ?thesis unfolding j by simp
qed

text \<open>
  Claim C3. For every order \<open>n\<close> and every pair \<open>(a, b)\<close> of equal length,
  \<open>mean_gauss_pce\<close> returns a table of \<open>n + 1\<close> rows whose entries of the orders
  \<open>0\<close>, \<open>1\<close> and \<open>2\<close> are the closed forms
  \<open>\<Phi>(-b / \<surd>(1 + a\<^sup>2))\<close>, \<open>exp(-(b / \<surd>(1 + a\<^sup>2))\<^sup>2 / 2) / (\<surd>(2\<pi>) \<surd>(1 + a\<^sup>2))\<close> and
  \<open>(b / 2) mean[1] / (1 + a\<^sup>2)\<close>, and whose entries of every order \<open>i\<close> from \<open>3\<close> to
  \<open>n\<close> satisfy
  \<open>mean[i] = ((b / i) mean[i - 1] - ((i - 2) / (i (i - 1))) mean[i - 2]) / (1 + a\<^sup>2)\<close>,
  entry by entry.
\<close>

theorem mean_gauss_pce_recursion:
  assumes "length a = length b"
  shows "\<exists>mean. mean_gauss_pce n a b = Inr mean \<and> length mean = n + 1
     \<and> (\<forall>i\<le>n. length (mean ! i) = length a)
     \<and> (\<forall>k<length a.
          mean ! 0 ! k = norm_cdf (- (b ! k / sqrt (1 + (a ! k)\<^sup>2)))
        \<and> (1 \<le> n \<longrightarrow> mean ! 1 ! k =
              exp (- ((b ! k / sqrt (1 + (a ! k)\<^sup>2))\<^sup>2) / 2) / (sqrt (2 * pi) * sqrt (1 + (a ! k)\<^sup>2)))
        \<and> (2 \<le> n \<longrightarrow> mean ! 2 ! k = (b ! k / 2) * (mean ! 1 ! k) / (1 + (a ! k)\<^sup>2))
        \<and> (\<forall>i. 3 \<le> i \<and> i \<le> n \<longrightarrow>
              mean ! i ! k =
                ((b ! k / real i) * (mean ! (i - 1) ! k)
                 - (real (i - 2) / (real i * real (i - 1))) * (mean ! (i - 2) ! k))
                / (1 + (a ! k)\<^sup>2)))"
proof -
  have ent: "mean_table n a b ! i ! k = mean_entry (a ! k) (b ! k) i" if "i \<le> n" "k < length a" for i k
    using that by (rule nth_mean_table)
  have "mean_table n a b ! 0 ! k = norm_cdf (- (b ! k / sqrt (1 + (a ! k)\<^sup>2)))" if "k < length a" for k
    using ent[of 0 k] that by simp
  moreover have "mean_table n a b ! 1 ! k =
              exp (- ((b ! k / sqrt (1 + (a ! k)\<^sup>2))\<^sup>2) / 2) / (sqrt (2 * pi) * sqrt (1 + (a ! k)\<^sup>2))"
    if "k < length a" "1 \<le> n" for k
    using ent[of 1 k] that by simp
  moreover have "mean_table n a b ! 2 ! k = (b ! k / 2) * (mean_table n a b ! 1 ! k) / (1 + (a ! k)\<^sup>2)"
    if "k < length a" "2 \<le> n" for k
    using ent[of 2 k] ent[of 1 k] that by (simp add: numeral_2_eq_2 del: mean_entry.simps(2))
  moreover have "mean_table n a b ! i ! k =
                ((b ! k / real i) * (mean_table n a b ! (i - 1) ! k)
                 - (real (i - 2) / (real i * real (i - 1))) * (mean_table n a b ! (i - 2) ! k))
                / (1 + (a ! k)\<^sup>2)"
    if "k < length a" "3 \<le> i" "i \<le> n" for i k
    using ent[of i k] ent[of "i - 1" k] ent[of "i - 2" k] that mean_entry_rec[OF that(2)] by simp
  ultimately show ?thesis
    using mean_gauss_pce_table[OF assms, of n] length_mean_table[of n a b] length_nth_mean_table[of _ n a b]
    by (intro exI[of _ "mean_table n a b"]) blast
qed

theorem mean_gauss_pce_recursion_witness:
  "length [1::real] = length [2::real]
   \<and> (\<exists>mean. mean_gauss_pce 3 [1] [2] = Inr mean
        \<and> mean ! 0 ! 0 = norm_cdf (- (2 / sqrt 2))
        \<and> mean ! 1 ! 0 = exp (- ((2 / sqrt 2)\<^sup>2) / 2) / (sqrt (2 * pi) * sqrt 2)
        \<and> mean ! 2 ! 0 = mean ! 1 ! 0 / 2
        \<and> mean ! 3 ! 0 = (2 / 3 * (mean ! 2 ! 0) - 1 / 6 * (mean ! 1 ! 0)) / 2)"
proof -
  have h: "length [1::real] = length [2::real]" by simp
  obtain mean where m: "mean_gauss_pce 3 [1] [2] = Inr mean"
    and e: "\<forall>k<length [1::real].
          mean ! 0 ! k = norm_cdf (- ([2] ! k / sqrt (1 + ([1] ! k)\<^sup>2)))
        \<and> (1 \<le> (3::nat) \<longrightarrow> mean ! 1 ! k =
              exp (- (([2] ! k / sqrt (1 + ([1] ! k)\<^sup>2))\<^sup>2) / 2) / (sqrt (2 * pi) * sqrt (1 + ([1] ! k)\<^sup>2)))
        \<and> (2 \<le> (3::nat) \<longrightarrow> mean ! 2 ! k = ([2] ! k / 2) * (mean ! 1 ! k) / (1 + ([1] ! k)\<^sup>2))
        \<and> (\<forall>i. 3 \<le> i \<and> i \<le> 3 \<longrightarrow>
              mean ! i ! k =
                (([2] ! k / real i) * (mean ! (i - 1) ! k)
                 - (real (i - 2) / (real i * real (i - 1))) * (mean ! (i - 2) ! k))
                / (1 + ([1] ! k)\<^sup>2))"
    using mean_gauss_pce_recursion [OF h, of 3] by blast
  from e have e0: "mean ! 0 ! 0 = norm_cdf (- (2 / sqrt 2))"
    and e1: "mean ! 1 ! 0 = exp (- ((2 / sqrt 2)\<^sup>2) / 2) / (sqrt (2 * pi) * sqrt 2)"
    and e2: "mean ! 2 ! 0 = mean ! 1 ! 0 / 2"
    and e3: "\<forall>i. 3 \<le> i \<and> i \<le> 3 \<longrightarrow>
              mean ! i ! 0 =
                ((2 / real i) * (mean ! (i - 1) ! 0)
                 - (real (i - 2) / (real i * real (i - 1))) * (mean ! (i - 2) ! 0))
                / 2"
    by simp_all
  from e3 have "mean ! 3 ! 0 = ((2 / real 3) * (mean ! (3 - 1) ! 0)
                 - (real (3 - 2) / (real 3 * real (3 - 1))) * (mean ! (3 - 2) ! 0)) / 2"
    by (metis le_refl)
  then have "mean ! 3 ! 0 = (2 / 3 * (mean ! 2 ! 0) - 1 / 6 * (mean ! 1 ! 0)) / 2"
    by simp
  then show ?thesis using h m e0 e1 e2 by blast
qed

subsection \<open>The PCE coefficient function\<close>

lemma cdf_term_bound: "norm (cdf_term x n) \<le> \<bar>x\<bar> * ((x\<^sup>2 / 2) ^ n / fact n)"
proof -
  have "norm (cdf_term x n) = \<bar>x\<bar> ^ (2 * n + 1) / (fact n * 2 ^ n * real (2 * n + 1))"
    by (simp add: cdf_term_def power_abs abs_mult)
  also have "\<dots> \<le> \<bar>x\<bar> ^ (2 * n + 1) / (fact n * 2 ^ n)"
  proof -
    have "(0::real) < fact n * 2 ^ n" by simp
    moreover have "fact n * 2 ^ n * 1 \<le> fact n * 2 ^ n * real (2 * n + 1)"
      by (intro mult_left_mono) simp_all
    ultimately show ?thesis
      by (intro divide_left_mono) simp_all
  qed
  also have "\<dots> = \<bar>x\<bar> * ((x\<^sup>2 / 2) ^ n / fact n)"
    by (simp add: power_mult power_divide power2_eq_square power_mult_distrib)
  finally show ?thesis .
qed

lemma summable_cdf_term: "summable (cdf_term x)"
proof (rule summable_comparison_test)
  show "\<exists>N. \<forall>n\<ge>N. norm (cdf_term x n) \<le> \<bar>x\<bar> * ((x\<^sup>2 / 2) ^ n / fact n)"
    using cdf_term_bound by blast
  have "summable (\<lambda>n. inverse (fact n) * (x\<^sup>2 / 2) ^ n)"
    by (rule summable_exp)
  moreover have "(\<lambda>n. inverse (fact n) * (x\<^sup>2 / 2) ^ n) = (\<lambda>n. (x\<^sup>2 / 2) ^ n / fact n)"
    by (rule ext) (simp add: field_simps)
  ultimately have "summable (\<lambda>n. (x\<^sup>2 / 2) ^ n / fact n)"
    by simp
  then show "summable (\<lambda>n. \<bar>x\<bar> * ((x\<^sup>2 / 2) ^ n / fact n))"
    by (rule summable_mult)
qed

lemma cdf_term_minus: "cdf_term (- x) n = - cdf_term x n"
  by (simp add: cdf_term_def)

lemma norm_cdf_minus: "norm_cdf (- x) = 1 - norm_cdf x"
proof -
  have "(\<Sum>n. cdf_term (- x) n) = (\<Sum>n. - cdf_term x n)"
    by (simp add: cdf_term_minus)
  also have "\<dots> = - (\<Sum>n. cdf_term x n)"
    by (rule suminf_minus) (rule summable_cdf_term)
  finally show ?thesis
    by (simp add: norm_cdf_def)
qed

lemma norm_cdf_0: "norm_cdf 0 = 1 / 2"
  using norm_cdf_minus[of 0] by simp

lemma hermitenorm_values:
  "hermitenorm 2 x = x\<^sup>2 - 1" "hermitenorm 3 x = x ^ 3 - 3 * x"
  by (simp_all add: numeral_2_eq_2 numeral_3_eq_3 power2_eq_square power3_eq_cube algebra_simps)

text \<open>
  Claim C4. For every real \<open>x\<close>, \<open>coef_gauss_pce(0, x)\<close> is the standard normal
  survival function \<open>1 - \<Phi>(x)\<close>, and for every order \<open>n + 1 \<ge> 1\<close>,
  \<open>coef_gauss_pce(n + 1, x)\<close> is \<open>\<phi>(x) He\<^sub>n(x) / (n + 1)!\<close> with \<open>\<phi>\<close> the standard normal
  density \<open>exp(-x\<^sup>2 / 2) / \<surd>(2\<pi>)\<close> and \<open>He\<^sub>n\<close> the probabilist Hermite polynomial of
  degree \<open>n\<close>.
\<close>

theorem coef_gauss_pce_closed_form:
  "coef_gauss_pce 0 x = 1 - norm_cdf x
   \<and> coef_gauss_pce (Suc n) x = (exp (- (x\<^sup>2) / 2) / sqrt (2 * pi)) * hermitenorm n x / fact (Suc n)"
  by (simp add: coef_gauss_pce_def norm_cdf_minus norm_pdf_def)

subsection \<open>The quadrature moment engine\<close>

lemma bget_nth: "k < length xs \<Longrightarrow> bget xs k = xs ! k"
  by (auto simp: bget_def bidx_def)

lemma gauss_hermite_Inr:
  "hg n = Inr kw \<Longrightarrow>
   gauss_hermite hg n = Inr (map (\<lambda>p. fst p * sqrt 2) kw, map (\<lambda>p. snd p / sqrt pi) kw)"
  by (simp add: gauss_hermite_def)

lemma gauss_hermite_Inl: "hg n = Inl e \<Longrightarrow> gauss_hermite hg n = Inl e"
  by (simp add: gauss_hermite_def)

lemma nth_np_triu:
  "i < length m \<Longrightarrow> r < N \<Longrightarrow> c < M \<Longrightarrow>
   np_triu (N, M) k m ! i ! r ! c = (if int c \<le> int r + (k - 1) then 0 else m ! i ! r ! c)"
  by (simp add: np_triu_def np_tri_def)

lemma nth_np_tril:
  "i < length m \<Longrightarrow> r < N \<Longrightarrow> c < M \<Longrightarrow>
   np_tril (N, M) k m ! i ! r ! c = (if int c \<le> int r + k then m ! i ! r ! c else 0)"
  by (simp add: np_tril_def np_tri_def)

lemma length_np_triu: "length (np_triu NM k m) = length m"
  by (simp add: np_triu_def)

lemma length_np_tril: "length (np_tril NM k m) = length m"
  by (simp add: np_tril_def)

lemma length_nth_np_triu: "i < length m \<Longrightarrow> length (np_triu (N, M) k m ! i) = N"
  by (simp add: np_triu_def)

lemma length_nth_np_tril: "i < length m \<Longrightarrow> length (np_tril (N, M) k m ! i) = N"
  by (simp add: np_tril_def)

lemma length_nth_nth_np_triu:
  "i < length m \<Longrightarrow> r < N \<Longrightarrow> length (np_triu (N, M) k m ! i ! r) = M"
  by (simp add: np_triu_def)

lemma length_nth_nth_np_tril:
  "i < length m \<Longrightarrow> r < N \<Longrightarrow> length (np_tril (N, M) k m ! i ! r) = M"
  by (simp add: np_tril_def)

lemma length_transpose_102: "length (transpose_102 (A, B) m) = B"
  by (simp add: transpose_102_def)

lemma nth_transpose_102: "i < A \<Longrightarrow> j < B \<Longrightarrow> transpose_102 (A, B) m ! j ! i = m ! i ! j"
  by (simp add: transpose_102_def)

lemma length_cov_upper: "length (cov_upper a b n_pce K x y w sig mean) = n_pce + 1"
  by (simp add: cov_upper_def)

lemma nth_cov_upper:
  "i \<le> n_pce \<Longrightarrow> j \<le> n_pce \<Longrightarrow> k < K \<Longrightarrow>
   cov_upper a b n_pce K x y w sig mean ! i ! j ! k =
     (if i \<le> j then
        (\<Sum>q\<leftarrow>[0..<length w]. w ! q * integrand a b x y sig i q k * integrand a b x y sig j q k)
        - (mean ! i ! k) * (mean ! j ! k)
      else 0)"
  unfolding cov_upper_def by (simp del: upt_Suc)




lemma nth_add3:
  "i < length x \<Longrightarrow> i < length y \<Longrightarrow> j < length (x ! i) \<Longrightarrow> j < length (y ! i) \<Longrightarrow>
   k < length (x ! i ! j) \<Longrightarrow> k < length (y ! i ! j) \<Longrightarrow>
   add3 x y ! i ! j ! k = x ! i ! j ! k + y ! i ! j ! k"
  by (simp add: add3_def)

lemma nth_compute_cov_pce:
  assumes "i \<le> n_pce" "j \<le> n_pce" "k < K"
  shows "compute_cov_pce a b n_pce K x y w sig mean ! i ! j ! k =
     (if j \<le> k then cov_upper a b n_pce K x y w sig mean ! i ! j ! k
      else cov_upper a b n_pce K x y w sig mean ! j ! i ! k)"
proof -
  let ?U = "cov_upper a b n_pce K x y w sig mean"
  let ?T = "transpose_102 (n_pce + 1, n_pce + 1) ?U"
  have lU: "length ?U = n_pce + 1" by (rule length_cov_upper)
  have lT: "length ?T = n_pce + 1" by (rule length_transpose_102)
  have "compute_cov_pce a b n_pce K x y w sig mean ! i ! j ! k
      = np_triu (n_pce + 1, K) 0 ?U ! i ! j ! k + np_tril (n_pce + 1, K) (- 1) ?T ! i ! j ! k"
    unfolding compute_cov_pce_def Let_def
    using assms
    by (intro nth_add3)
       (simp_all add: length_np_triu length_np_tril lU length_transpose_102
        length_nth_np_triu length_nth_np_tril length_nth_nth_np_triu length_nth_nth_np_tril)
  also have "\<dots> = (if int k \<le> int j + (0 - 1) then 0 else ?U ! i ! j ! k)
                  + (if int k \<le> int j + (- 1) then ?T ! i ! j ! k else 0)"
    using assms by (simp add: nth_np_triu nth_np_tril lU length_transpose_102)
  also have "\<dots> = (if j \<le> k then ?U ! i ! j ! k else ?T ! i ! j ! k)"
    by auto
  also have "?T ! i ! j = ?U ! j ! i"
    using assms by (simp add: nth_transpose_102)
  finally show ?thesis .
qed

lemma mean_cov_pce_quad_Inl:
  "hg nq = Inl e \<Longrightarrow> mean_cov_pce_quad hg a0 b0 n_pce nq = Inl e"
  by (simp add: mean_cov_pce_quad_def gauss_hermite_Inl)


lemma mean_cov_pce_quad_Inr:
  assumes "hg nq = Inr kw"
    and "length (atleast_1d b0) = length (atleast_1d a0) \<or> length (atleast_1d b0) = 1"
  shows "mean_cov_pce_quad hg a0 b0 n_pce nq =
     Inr (map (mean_quad_row (atleast_1d a0) (atleast_1d b0) (length (atleast_1d a0))
                 (map (\<lambda>p. snd p / sqrt pi) kw)
                 (quad_y_he_ab (atleast_1d a0) (atleast_1d b0) (length (atleast_1d a0))
                    (map (\<lambda>p. fst p * sqrt 2) kw))
                 (quad_sig (atleast_1d a0))) [0..<n_pce + 1],
          compute_cov_pce (atleast_1d a0) (atleast_1d b0) n_pce (length (atleast_1d a0))
            (quad_x_he_ab (atleast_1d a0) (atleast_1d b0) (length (atleast_1d a0))
               (map (\<lambda>p. fst p * sqrt 2) kw))
            (quad_y_he_ab (atleast_1d a0) (atleast_1d b0) (length (atleast_1d a0))
               (map (\<lambda>p. fst p * sqrt 2) kw))
            (map (\<lambda>p. snd p / sqrt pi) kw)
            (quad_sig (atleast_1d a0))
            (map (mean_quad_row (atleast_1d a0) (atleast_1d b0) (length (atleast_1d a0))
                 (map (\<lambda>p. snd p / sqrt pi) kw)
                 (quad_y_he_ab (atleast_1d a0) (atleast_1d b0) (length (atleast_1d a0))
                    (map (\<lambda>p. fst p * sqrt 2) kw))
                 (quad_sig (atleast_1d a0))) [0..<n_pce + 1]))"
proof -
  have "bshape (length (atleast_1d a0)) (length (atleast_1d b0)) = Inr (length (atleast_1d a0))"
    using assms(2) by (auto simp: bshape_def)
  then show ?thesis
    using assms(1) gauss_hermite_Inr[of hg nq kw]
    by (simp add: mean_cov_pce_quad_def compute_mean_pce_def Let_def del: upt_Suc)
qed


lemma mean_quad_row_0:
  "length a = length b \<Longrightarrow>
   mean_quad_row a b (length a) w y sig 0 = map (\<lambda>k. mean_entry (a ! k) (b ! k) 0) [0..<length a]"
  by (simp add: mean_quad_row_def bget_nth)

lemma mean_quad_row_1:
  "length a = length b \<Longrightarrow>
   mean_quad_row a b (length a) w y sig 1 = map (\<lambda>k. mean_entry (a ! k) (b ! k) 1) [0..<length a]"
  by (simp add: mean_quad_row_def bget_nth norm_pdf_def)

lemma nth_upt_map0: "i \<le> n \<Longrightarrow> map f [0..<n + 1] ! i = f i"
  by (simp del: upt_Suc)

lemma hermgauss_12_1: "hermgauss_12 1 = Inr [(0, sqrt pi)]"
  by (simp add: hermgauss_12_def)

lemma hermgauss_12_2:
  "hermgauss_12 2 = Inr [(- (1 / sqrt 2), sqrt pi / 2), (1 / sqrt 2, sqrt pi / 2)]"
  by (simp add: hermgauss_12_def)

text \<open>
  Claim C5. For every pair \<open>(a, b)\<close> of equal length, every \<open>n_pce \<ge> 1\<close> and every
  \<open>n_quad\<close> for which the provider returns a rule, the rows of the orders \<open>0\<close> and \<open>1\<close>
  of the mean that \<open>mean_cov_pce_quad\<close> returns are the closed forms
  \<open>\<Phi>(-b / \<surd>(1 + a\<^sup>2))\<close> and \<open>exp(-(b / \<surd>(1 + a\<^sup>2))\<^sup>2 / 2) / \<surd>(2\<pi>) / \<surd>(1 + a\<^sup>2)\<close>, in which
  neither the nodes nor the weights of the rule occur, and they are equal to the rows of
  the orders \<open>0\<close> and \<open>1\<close> that \<open>mean_gauss_pce\<close> returns.
\<close>

theorem quad_mean_closed_forms:
  assumes "length a = length b" and "1 \<le> n_pce" and "hg nq = Inr kw"
  shows "\<exists>mq cq ma.
           mean_cov_pce_quad hg (Vec a) (Vec b) n_pce nq = Inr (mq, cq)
         \<and> mean_gauss_pce n_pce a b = Inr ma
         \<and> mq ! 0 = ma ! 0 \<and> mq ! 1 = ma ! 1
         \<and> mq ! 0 = map (\<lambda>k. norm_cdf (- (b ! k / sqrt (1 + (a ! k)\<^sup>2)))) [0..<length a]
         \<and> mq ! 1 = map (\<lambda>k. exp (- ((b ! k / sqrt (1 + (a ! k)\<^sup>2))\<^sup>2) / 2) / sqrt (2 * pi)
                              / sqrt (1 + (a ! k)\<^sup>2)) [0..<length a]"
proof -
  let ?w = "map (\<lambda>p. snd p / sqrt pi) kw"
  let ?y = "quad_y_he_ab a b (length a) (map (\<lambda>p. fst p * sqrt 2) kw)"
  let ?mq = "map (mean_quad_row a b (length a) ?w ?y (quad_sig a)) [0..<n_pce + 1]"
  obtain cq where q: "mean_cov_pce_quad hg (Vec a) (Vec b) n_pce nq = Inr (?mq, cq)"
    using mean_cov_pce_quad_Inr[of hg nq kw "Vec b" "Vec a" n_pce] assms by simp
  have m: "mean_gauss_pce n_pce a b = Inr (mean_table n_pce a b)"
    using assms(1) by (rule mean_gauss_pce_table)
  have "?mq ! 0 = mean_quad_row a b (length a) ?w ?y (quad_sig a) 0"
    by (rule nth_upt_map0) simp
  then have q0: "?mq ! 0 = map (\<lambda>k. mean_entry (a ! k) (b ! k) 0) [0..<length a]"
    unfolding mean_quad_row_0[OF assms(1)] .
  have "?mq ! 1 = mean_quad_row a b (length a) ?w ?y (quad_sig a) 1"
    using assms(2) by (rule nth_upt_map0)
  then have q1: "?mq ! 1 = map (\<lambda>k. mean_entry (a ! k) (b ! k) 1) [0..<length a]"
    unfolding mean_quad_row_1[OF assms(1)] .
  have t0: "mean_table n_pce a b ! 0 = map (\<lambda>k. mean_entry (a ! k) (b ! k) 0) [0..<length a]"
    unfolding mean_table_def by (rule nth_upt_map0) simp
  have t1: "mean_table n_pce a b ! 1 = map (\<lambda>k. mean_entry (a ! k) (b ! k) 1) [0..<length a]"
    unfolding mean_table_def using assms(2) by (rule nth_upt_map0)
  have "?mq ! 0 = mean_table n_pce a b ! 0" "?mq ! 1 = mean_table n_pce a b ! 1"
    using q0 q1 t0 t1 by simp_all
  moreover have "?mq ! 0 = map (\<lambda>k. norm_cdf (- (b ! k / sqrt (1 + (a ! k)\<^sup>2)))) [0..<length a]"
    using q0 by simp
  moreover have "?mq ! 1 = map (\<lambda>k. exp (- ((b ! k / sqrt (1 + (a ! k)\<^sup>2))\<^sup>2) / 2) / sqrt (2 * pi)
                              / sqrt (1 + (a ! k)\<^sup>2)) [0..<length a]"
    using q1 by simp
  ultimately show ?thesis
    using q m by blast
qed

theorem quad_mean_closed_forms_witness:
  "length [1::real] = length [2::real] \<and> (1::nat) \<le> 1
   \<and> hermgauss_12 1 = Inr [(0, sqrt pi)]
   \<and> (\<exists>mq cq ma.
           mean_cov_pce_quad hermgauss_12 (Vec [1]) (Vec [2]) 1 1 = Inr (mq, cq)
         \<and> mean_gauss_pce 1 [1] [2] = Inr ma
         \<and> mq ! 0 = ma ! 0 \<and> mq ! 1 = ma ! 1
         \<and> mq ! 0 = [norm_cdf (- (2 / sqrt 2))]
         \<and> mq ! 1 = [exp (- ((2 / sqrt 2)\<^sup>2) / 2) / sqrt (2 * pi) / sqrt 2])"
proof -
  have h1: "length [1::real] = length [2::real]" and h2: "(1::nat) \<le> 1"
    by simp_all
  show ?thesis
    using quad_mean_closed_forms [of "[1]" "[2]" 1 hermgauss_12 1 "[(0, sqrt pi)]"] h1 h2 hermgauss_12_1
    by simp
qed



lemma upt_3: "[0..<3] = [0, 1, 2]"
  by (simp add: upt_rec)




subsection \<open>The covariance tensors at concrete inputs\<close>

lemma upt_2: "[0..<2] = [0, 1]"
  by (simp add: upt_rec)

lemma upt_2_3: "[2..<3] = [2]"
  by (simp add: upt_rec)

lemma replicate_3: "replicate 3 x = [x, x, x]"
  by (simp add: numeral_3_eq_3)

lemma list3_update:
  "[x, y, z][0 := v] = [v, y, z]" "[x, y, z][1 := v] = [x, v, z]" "[x, y, z][2 := v] = [x, y, v]"
  by (simp_all add: numeral_2_eq_2)

lemma list3_nth: "[x, y, z] ! 0 = x" "[x, y, z] ! 1 = y" "[x, y, z] ! 2 = z"
  by (simp_all add: numeral_2_eq_2)

lemma mean_table_2_single:
  "mean_table 2 [a] [b] = [[mean_entry a b 0], [mean_entry a b 1], [mean_entry a b 2]]"
  by (simp add: mean_table_def upt_3 del: mean_entry.simps)

lemma sigma0_matrix_2_single:
  "\<exists>s0 s1. sigma0_matrix mvn 2 [a] [b] =
     Inr [[s0], [s1],
          [(b * s1 - a\<^sup>2 * mean_entry a b 1 * mean_entry (a / sqrt (1 + a\<^sup>2)) (b / (1 + a\<^sup>2)) 1)
           / (2 * (1 + a\<^sup>2))]]"
  by (simp add: sigma0_matrix_def mean_gauss_pce_table mean_table_2_single sigma0_row_def upt_2_3 Let_def
        replicate_3 list3_update list3_nth del: mean_entry.simps)

lemma cov_gauss_pce_2_single:
  assumes "a \<noteq> 0"
  shows "\<exists>c. cov_gauss_pce mvn 2 [a] [b] = Inr c
     \<and> c ! 1 ! 2 ! 0 = Some 0
     \<and> c ! 2 ! 1 ! 0 =
         Some ((1 / (2 * a\<^sup>2))
               * (b * (mean_entry a b 1 * mean_entry (a / sqrt (1 + a\<^sup>2)) (b / (1 + a\<^sup>2)) 1
                       - (mean_entry a b 1)\<^sup>2))
               - mean_entry a b 2 * mean_entry a b 1)"
proof -
  obtain s0 s1 where s: "sigma0_matrix mvn 2 [a] [b] =
     Inr [[s0], [s1],
          [(b * s1 - a\<^sup>2 * mean_entry a b 1 * mean_entry (a / sqrt (1 + a\<^sup>2)) (b / (1 + a\<^sup>2)) 1)
           / (2 * (1 + a\<^sup>2))]]"
    using sigma0_matrix_2_single by blast
  have "0 \<le> a * a"
    by simp
  then have nz: "1 + a * a \<noteq> 0" "2 + a * (a * 2) \<noteq> 0"
    by linarith+
  define P where "P = a * a"
  have P: "0 < P"
    unfolding P_def using assms by (auto simp: zero_less_mult_iff neq_iff)
  have "0 < P * 2 + P * (P * 2)"
    using P by (simp add: add_pos_pos)
  then have nz3: "a * (a * 2) + a * (a * (a * (a * 2))) \<noteq> 0"
    unfolding P_def by (simp add: mult.assoc)
  show ?thesis
    using assms nz nz3
    apply (simp add: cov_gauss_pce_def s mean_gauss_pce_table mean_table_2_single Let_def
        replicate_3 list3_update list3_nth upt_3 upt_2 cov_store_def cov_interior_def fdiv_def
        del: mean_entry.simps)
    apply (simp add: field_simps power2_eq_square del: mean_entry.simps)
    done
qed

lemma two_point_identity:
  fixes t r F :: real
  shows "1 / 2 * ((t - r) * F / 2) * (((t - r)\<^sup>2 - 1) * F / 6)
       + 1 / 2 * ((t + r) * F / 2) * (((t + r)\<^sup>2 - 1) * F / 6)
       - (1 / 2 * (t - r) + 1 / 2 * (t + r)) * F / 2
         * ((1 / 2 * ((t - r)\<^sup>2 - 1) + 1 / 2 * ((t + r)\<^sup>2 - 1)) * F / 6)
       = F\<^sup>2 * t * r\<^sup>2 / 6"
  by (simp add: power2_eq_square field_simps)

lemma quad_x_he_12: "map (\<lambda>p. fst p * sqrt 2) [(- (1 / sqrt 2), sqrt pi / 2), (1 / sqrt 2, sqrt pi / 2)] = [- 1, 1]"
  by simp

lemma quad_w_he_12: "map (\<lambda>p. snd p / sqrt pi) [(- (1 / sqrt 2), sqrt pi / 2), (1 / sqrt 2, sqrt pi / 2)] = [1 / 2, 1 / 2]"
  by simp

lemma quad_y_he_ab_11:
  "quad_y_he_ab [1] [1] 1 [- 1, 1] = [[1 / 2 - 1 / sqrt 2], [1 / 2 + 1 / sqrt 2]]"
  by (simp add: quad_y_he_ab_def quad_sig_def quad_mu_def bget_def bidx_def)

lemma quad_factor_11:
  "quad_factor [1] [1] (quad_sig [1]) m 0 = (1 / sqrt 2 * exp (- (1 / 4)) / sqrt (2 * pi)) / fact m"
  by (simp add: quad_factor_def quad_sig_def bget_def bidx_def)


lemma upt_4: "[0..<4] = [0, 1, 2, 3]"
  by (simp add: upt_rec)

lemma quad_cov_asym:
  "\<exists>mean cov. mean_cov_pce_quad hermgauss_12 (Vec [1]) (Vec [1]) 3 2 = Inr (mean, cov)
     \<and> cov ! 2 ! 3 ! 0 = 0
     \<and> cov ! 3 ! 2 ! 0 = exp (- (1 / 2)) / (96 * pi)"
proof -
  let ?F = "1 / sqrt 2 * exp (- (1 / 4)) / sqrt (2 * pi)"
  let ?w = "[1 / 2, 1 / 2] :: real list"
  let ?y = "[[1 / 2 - 1 / sqrt 2], [1 / 2 + 1 / sqrt 2]] :: real list list"
  let ?x = "quad_x_he_ab [1] [1] 1 [- 1, 1]"
  let ?mean = "map (mean_quad_row [1] [1] 1 ?w ?y (quad_sig [1])) [0..<3 + 1]"
  let ?cov = "compute_cov_pce [1] [1] 3 1 ?x ?y ?w (quad_sig [1]) ?mean"
  have "length (atleast_1d (Vec [1])) = length (atleast_1d (Vec [1])) \<or> length (atleast_1d (Vec [1])) = 1"
    by simp
  from mean_cov_pce_quad_Inr[of hermgauss_12 2 _ "Vec [1]" "Vec [1]" 3, OF hermgauss_12_2 this]
  have q: "mean_cov_pce_quad hermgauss_12 (Vec [1]) (Vec [1]) 3 2 = Inr (?mean, ?cov)"
    unfolding quad_x_he_12 quad_w_he_12 by (simp add: quad_y_he_ab_11[unfolded One_nat_def])
  have m2: "?mean ! 2 ! 0 = (1 / 2 * (1 / 2 - 1 / sqrt 2) + 1 / 2 * (1 / 2 + 1 / sqrt 2)) * ?F / 2"
    by (simp add: upt_4 mean_quad_row_def upt_2 quad_factor_11 numeral_2_eq_2)
  have m3: "?mean ! 3 ! 0 = (1 / 2 * ((1 / 2 - 1 / sqrt 2)\<^sup>2 - 1) + 1 / 2 * ((1 / 2 + 1 / sqrt 2)\<^sup>2 - 1)) * ?F / 6"
    by (simp add: upt_4 mean_quad_row_def upt_2 quad_factor_11 numeral_3_eq_3 power2_eq_square
        fact_numeral)
  have i2: "integrand [1] [1] ?x ?y (quad_sig [1]) 2 q 0 = (?y ! q ! 0) * ?F / 2" for q
    by (simp add: integrand_def quad_factor_11 numeral_2_eq_2)
  have i3: "integrand [1] [1] ?x ?y (quad_sig [1]) 3 q 0 = ((?y ! q ! 0)\<^sup>2 - 1) * ?F / 6" for q
    by (simp add: integrand_def quad_factor_11 hermitenorm_values fact_numeral)
  have u23: "cov_upper [1] [1] 3 1 ?x ?y ?w (quad_sig [1]) ?mean ! 2 ! 3 ! 0
      = 1 / 2 * ((1 / 2 - 1 / sqrt 2) * ?F / 2) * (((1 / 2 - 1 / sqrt 2)\<^sup>2 - 1) * ?F / 6)
       + 1 / 2 * ((1 / 2 + 1 / sqrt 2) * ?F / 2) * (((1 / 2 + 1 / sqrt 2)\<^sup>2 - 1) * ?F / 6)
       - (1 / 2 * (1 / 2 - 1 / sqrt 2) + 1 / 2 * (1 / 2 + 1 / sqrt 2)) * ?F / 2
         * ((1 / 2 * ((1 / 2 - 1 / sqrt 2)\<^sup>2 - 1) + 1 / 2 * ((1 / 2 + 1 / sqrt 2)\<^sup>2 - 1)) * ?F / 6)"
  proof -
    have "cov_upper [1] [1] 3 1 ?x ?y ?w (quad_sig [1]) ?mean ! 2 ! 3 ! 0
        = (if (2::nat) \<le> 3 then
            (\<Sum>q\<leftarrow>[0..<length ?w]. ?w ! q * integrand [1] [1] ?x ?y (quad_sig [1]) 2 q 0
                                         * integrand [1] [1] ?x ?y (quad_sig [1]) 3 q 0)
            - (?mean ! 2 ! 0) * (?mean ! 3 ! 0)
           else 0)"
      by (rule nth_cov_upper) simp_all
    also have "\<dots> = (\<Sum>q\<leftarrow>[0, 1]. ?w ! q * ((?y ! q ! 0) * ?F / 2) * (((?y ! q ! 0)\<^sup>2 - 1) * ?F / 6))
            - (?mean ! 2 ! 0) * (?mean ! 3 ! 0)"
      unfolding i2 i3 by (simp add: upt_2)
    finally show ?thesis
      unfolding m2 m3 by simp
  qed
  have u32: "cov_upper [1] [1] 3 1 ?x ?y ?w (quad_sig [1]) ?mean ! 3 ! 2 ! 0 = 0"
    by (subst nth_cov_upper) simp_all
  have c32: "?cov ! 3 ! 2 ! 0 = cov_upper [1] [1] 3 1 ?x ?y ?w (quad_sig [1]) ?mean ! 2 ! 3 ! 0"
    by (subst nth_compute_cov_pce) simp_all
  have c23: "?cov ! 2 ! 3 ! 0 = cov_upper [1] [1] 3 1 ?x ?y ?w (quad_sig [1]) ?mean ! 3 ! 2 ! 0"
    by (subst nth_compute_cov_pce) simp_all
  have F2: "?F\<^sup>2 = exp (- (1 / 2)) / (4 * pi)"
  proof -
    have "exp (- (1 / 4) :: real) * exp (- (1 / 4)) = exp (- (1 / 2))"
      by (simp add: exp_add[symmetric])
    then show ?thesis
      by (simp add: power2_eq_square field_simps)
  qed
  have "?cov ! 3 ! 2 ! 0 = ?F\<^sup>2 * (1 / 2) * (1 / sqrt 2)\<^sup>2 / 6"
    unfolding c32 u23 by (rule two_point_identity)
  also have "\<dots> = exp (- (1 / 2)) / (96 * pi)"
    unfolding F2 by (simp add: power_divide)
  finally have "?cov ! 3 ! 2 ! 0 = exp (- (1 / 2)) / (96 * pi)" .
  moreover have "?cov ! 2 ! 3 ! 0 = 0"
    unfolding c23 u32 ..
  ultimately show ?thesis
    using q by blast
qed

lemma mean_entry_1_2: "mean_entry 1 2 1 = exp (- 1) / sqrt (2 * pi) / sqrt 2"
proof -
  have "(2 / sqrt 2)\<^sup>2 = (2::real)"
    by (simp add: power_divide)
  then show ?thesis
    by simp
qed

lemma mean_entry_shifted:
  "mean_entry (1 / sqrt (1 + 1\<^sup>2)) (2 / (1 + 1\<^sup>2)) 1 = exp (- (1 / 3)) / sqrt (2 * pi) / sqrt (3 / 2)"
proof -
  have a: "1 + (1 / sqrt (1 + 1\<^sup>2))\<^sup>2 = (3 / 2 :: real)"
    by (simp add: power_divide)
  have b: "((2 / (1 + 1\<^sup>2)) / sqrt (3 / 2))\<^sup>2 = (2 / 3 :: real)"
    by (simp add: power_divide)
  show ?thesis
    unfolding One_nat_def mean_entry.simps a b by simp
qed

lemma sqrt_ratio_bound:
  fixes E r2 r3 :: real
  assumes "0 < E" "0 < r2" "0 < r3" "r2 * r2 = 2" "9 * r3 < 20"
  shows "3 / 2 * (E / r2) < 5 / 3 * E / (r3 / r2)"
proof -
  have l: "3 / 2 * (E / r2) = (3 / 2 * r3 * E) / (r2 * r3)"
    using assms(2,3) by (simp add: field_simps)
  have "5 / 3 * E / (r3 / r2) = (5 / 3 * E * (r2 * r2)) / (r2 * r3)"
    using assms(2,3) by (simp add: field_simps)
  then have r: "5 / 3 * E / (r3 / r2) = (10 / 3 * E) / (r2 * r3)"
    unfolding assms(4) by simp
  have "0 < (10 / 3 - 3 / 2 * r3) * E"
    using assms(1,5) by (intro mult_pos_pos) simp_all
  then have "3 / 2 * r3 * E < 10 / 3 * E"
    by (simp add: algebra_simps)
  then show ?thesis
    unfolding l r using assms(2,3) by (intro divide_strict_right_mono mult_pos_pos)
qed

lemma analytic_entry_nonzero:
  "1 / (2 * 1\<^sup>2) * (2 * (mean_entry 1 2 1 * mean_entry (1 / sqrt (1 + 1\<^sup>2)) (2 / (1 + 1\<^sup>2)) 1
                             - (mean_entry 1 2 1)\<^sup>2))
    - mean_entry 1 2 2 * mean_entry 1 2 1 \<noteq> 0"
proof -
  let ?M1 = "exp (- 1) / sqrt (2 * pi) / sqrt 2 :: real"
  let ?M21 = "exp (- (1 / 3)) / sqrt (2 * pi) / sqrt (3 / 2) :: real"
  have M2: "mean_entry 1 2 2 = ?M1 / 2"
    using mean_entry_1_2 by (simp add: numeral_2_eq_2 del: mean_entry.simps(2))
  have e: "exp (- (1 / 3) :: real) = exp (2 / 3) * exp (- 1)"
    by (simp add: exp_add[symmetric])
  have "(1::real) + 2 / 3 \<le> exp (2 / 3)"
    by (rule exp_ge_add_one_self)
  then have e53: "5 / 3 * exp (- 1) \<le> exp (- (1 / 3) :: real)"
    unfolding e by (intro mult_right_mono) simp_all
  have s3: "sqrt 3 < 20 / 9"
    by (rule real_less_lsqrt) (simp_all add: power2_eq_square)
  have s32: "sqrt (3 / 2) = sqrt 3 / sqrt 2"
    by (rule real_sqrt_divide)
  have pos: "0 < exp (- 1 :: real)" "0 < sqrt (2 * pi)" "0 < sqrt 2" "0 < sqrt 3"
    by simp_all
  have "3 / 2 * (exp (- 1) / sqrt 2) < 5 / 3 * exp (- 1) / (sqrt 3 / sqrt 2)"
    using s3 by (intro sqrt_ratio_bound) simp_all
  also have "\<dots> \<le> exp (- (1 / 3)) / (sqrt 3 / sqrt 2)"
    using e53 by (intro divide_right_mono) simp_all
  finally have "3 / 2 * (exp (- 1) / sqrt 2) < exp (- (1 / 3)) / sqrt (3 / 2)"
    unfolding s32 .
  then have "3 / 2 * (exp (- 1) / sqrt 2) / sqrt (2 * pi) < exp (- (1 / 3)) / sqrt (3 / 2) / sqrt (2 * pi)"
    by (intro divide_strict_right_mono) simp_all
  then have lt: "3 / 2 * ?M1 < ?M21"
    by (simp add: field_simps)
  have M1pos: "0 < ?M1"
    by simp
  have eq: "1 / (2 * 1\<^sup>2) * (2 * (m1 * m21 - m1\<^sup>2)) - m1 / 2 * m1 = m1 * (m21 - 3 / 2 * m1)"
    for m1 m21 :: real
    by (simp add: power2_eq_square algebra_simps)
  have "0 < ?M1 * (?M21 - 3 / 2 * ?M1)"
    using M1pos lt by (intro mult_pos_pos) simp_all
  then have "?M1 * (?M21 - 3 / 2 * ?M1) \<noteq> 0"
    by (metis less_irrefl)
  then show ?thesis
    unfolding mean_entry_1_2 mean_entry_shifted M2 eq .
qed


text \<open>
  Claim C2 at concrete inputs. The analytic engine leaves \<open>cov_matrix[1, 2]\<close> at zero and
  fills \<open>cov_matrix[2, 1]\<close> for \<open>n = 2\<close>, \<open>a = [1]\<close>, \<open>b = [2]\<close>, whatever the
  bivariate distribution function returns. The quadrature engine returns
  \<open>cov[2, 3, 0] = 0\<close> and \<open>cov[3, 2, 0] = exp(-1/2) / (96 \<pi>)\<close> for \<open>n_pce = 3\<close>,
  \<open>a = [1]\<close>, \<open>b = [1]\<close> and the rule of two points: \<open>np.triu\<close> and \<open>np.tril\<close> act
  on the last two axes of the tensor, the order \<open>m2\<close> and the entry \<open>k\<close>.
\<close>

theorem cov_tensors_not_symmetric:
  "(\<exists>c v. cov_gauss_pce mvn 2 [1] [2] = Inr c
       \<and> c ! 1 ! 2 ! 0 = Some 0 \<and> c ! 2 ! 1 ! 0 = Some v \<and> v \<noteq> 0)
   \<and> (\<exists>mean cov. mean_cov_pce_quad hermgauss_12 (Vec [1]) (Vec [1]) 3 2 = Inr (mean, cov)
       \<and> cov ! 2 ! 3 ! 0 = 0 \<and> cov ! 3 ! 2 ! 0 = exp (- (1 / 2)) / (96 * pi))"
proof -
  have "(1::real) \<noteq> 0"
    by simp
  from cov_gauss_pce_2_single[OF this, of mvn 2] analytic_entry_nonzero
  have "\<exists>c v. cov_gauss_pce mvn 2 [1] [2] = Inr c
       \<and> c ! 1 ! 2 ! 0 = Some 0 \<and> c ! 2 ! 1 ! 0 = Some v \<and> v \<noteq> 0"
    by blast
  then show ?thesis
    using quad_cov_asym by blast
qed

subsection \<open>The interior recursion of the analytic covariance\<close>

lemma cov_interior_None:
  "k < length a \<Longrightarrow> a ! k = 0 \<Longrightarrow> cov_interior a b mv c i j ! k = None"
  by (simp add: cov_interior_def fdiv_def)

lemma sigma0_matrix_Inr:
  "length a = length b \<Longrightarrow> \<exists>s. sigma0_matrix mvn n a b = Inr s"
  by (simp add: sigma0_matrix_def mean_gauss_pce_table Let_def)

lemma cov_inner_loop:
  assumes "length c = n + 1" and "\<forall>r\<ge>1. r \<le> n \<longrightarrow> length (c ! r) = n + 1"
    and "i < n" and "m \<le> n - 1" and "k < length a" and "a ! k = 0"
  shows "length (fold (cov_store a b mv i) [0..<m] c) = n + 1
       \<and> (\<forall>r\<ge>1. r \<le> n \<longrightarrow> length (fold (cov_store a b mv i) [0..<m] c ! r) = n + 1)
       \<and> (\<forall>r. r \<noteq> i + 1 \<longrightarrow> fold (cov_store a b mv i) [0..<m] c ! r = c ! r)
       \<and> (\<forall>j<m. fold (cov_store a b mv i) [0..<m] c ! (i + 1) ! (j + 1) ! k = None)"
  using assms(4)
proof (induction m)
  case 0
  show ?case using assms(1,2) by simp
next
  case (Suc m)
  let ?c = "fold (cov_store a b mv i) [0..<m] c"
  let ?v = "cov_interior a b mv ?c i m"
  have m: "m \<le> n - 1" using Suc.prems by simp
  note IH = Suc.IH[OF m]
  have len: "length ?c = n + 1" and rows: "\<forall>r\<ge>1. r \<le> n \<longrightarrow> length (?c ! r) = n + 1"
    and same: "\<forall>r. r \<noteq> i + 1 \<longrightarrow> ?c ! r = c ! r"
    and none: "\<forall>j<m. ?c ! (i + 1) ! (j + 1) ! k = None"
    using IH by blast+
  have step: "fold (cov_store a b mv i) [0..<Suc m] c = ?c[i + 1 := (?c ! (i + 1))[m + 1 := ?v]]"
    by (simp add: cov_store_def)
  have i1: "i + 1 < length ?c" using len assms(3) by simp
  have rowlen: "length (?c ! (i + 1)) = n + 1" using rows assms(3) by simp
  have m1: "m + 1 < length (?c ! (i + 1))" using rowlen Suc.prems by simp
  have "length (?c[i + 1 := (?c ! (i + 1))[m + 1 := ?v]]) = n + 1"
    using len by simp
  moreover have "\<forall>r\<ge>1. r \<le> n \<longrightarrow> length (?c[i + 1 := (?c ! (i + 1))[m + 1 := ?v]] ! r) = n + 1"
    using rows len assms(3) by (auto simp: nth_list_update)
  moreover have "\<forall>r. r \<noteq> i + 1 \<longrightarrow> ?c[i + 1 := (?c ! (i + 1))[m + 1 := ?v]] ! r = c ! r"
    using same by (auto simp: nth_list_update)
  moreover have "\<forall>j<Suc m. ?c[i + 1 := (?c ! (i + 1))[m + 1 := ?v]] ! (i + 1) ! (j + 1) ! k = None"
  proof (intro allI impI)
    fix j assume "j < Suc m"
    show "?c[i + 1 := (?c ! (i + 1))[m + 1 := ?v]] ! (i + 1) ! (j + 1) ! k = None"
    proof (cases "j = m")
      case True
      then show ?thesis
        using i1 m1 cov_interior_None[OF assms(5,6)] by simp
    next
      case False
      then have "j < m" using \<open>j < Suc m\<close> by simp
      then show ?thesis
        using i1 m1 none by (simp add: nth_list_update)
    qed
  qed
  ultimately show ?case
    unfolding step by blast
qed

lemma cov_outer_loop:
  assumes "length c = n + 1" and "\<forall>r\<ge>1. r \<le> n \<longrightarrow> length (c ! r) = n + 1"
    and "m \<le> n" and "k < length a" and "a ! k = 0"
  shows "length (fold (\<lambda>i. fold (cov_store a b mv i) [0..<n - 1]) [0..<m] c) = n + 1
       \<and> (\<forall>r\<ge>1. r \<le> n \<longrightarrow>
            length (fold (\<lambda>i. fold (cov_store a b mv i) [0..<n - 1]) [0..<m] c ! r) = n + 1)
       \<and> (\<forall>i<m. \<forall>j<n - 1.
            fold (\<lambda>i. fold (cov_store a b mv i) [0..<n - 1]) [0..<m] c ! (i + 1) ! (j + 1) ! k = None)"
  using assms(3)
proof (induction m)
  case 0
  show ?case using assms(1,2) by simp
next
  case (Suc m)
  let ?c = "fold (\<lambda>i. fold (cov_store a b mv i) [0..<n - 1]) [0..<m] c"
  let ?d = "fold (cov_store a b mv m) [0..<n - 1] ?c"
  have m: "m \<le> n" and mn: "m < n" using Suc.prems by simp_all
  note IH = Suc.IH[OF m]
  have len: "length ?c = n + 1" and rows: "\<forall>r\<ge>1. r \<le> n \<longrightarrow> length (?c ! r) = n + 1"
    and none: "\<forall>i<m. \<forall>j<n - 1. ?c ! (i + 1) ! (j + 1) ! k = None"
    using IH by blast+
  have step: "fold (\<lambda>i. fold (cov_store a b mv i) [0..<n - 1]) [0..<Suc m] c = ?d"
    by simp
  note inner = cov_inner_loop[OF len rows mn le_refl assms(4,5), of b mv]
  have dlen: "length ?d = n + 1" and drows: "\<forall>r\<ge>1. r \<le> n \<longrightarrow> length (?d ! r) = n + 1"
    and dsame: "\<forall>r. r \<noteq> m + 1 \<longrightarrow> ?d ! r = ?c ! r"
    and dnone: "\<forall>j<n - 1. ?d ! (m + 1) ! (j + 1) ! k = None"
    using inner by blast+
  have "\<forall>i<Suc m. \<forall>j<n - 1. ?d ! (i + 1) ! (j + 1) ! k = None"
  proof (intro allI impI)
    fix i j assume "i < Suc m" "j < n - 1"
    show "?d ! (i + 1) ! (j + 1) ! k = None"
    proof (cases "i = m")
      case True
      then show ?thesis using dnone \<open>j < n - 1\<close> by simp
    next
      case False
      then have "i < m" using \<open>i < Suc m\<close> by simp
      moreover have "?d ! (i + 1) = ?c ! (i + 1)" using dsame False by simp
      ultimately show ?thesis using none \<open>j < n - 1\<close> by simp
    qed
  qed
  then show ?case
    unfolding step using dlen drows by blast
qed

text \<open>
  Claim C8. For every \<open>n \<ge> 2\<close> and every pair \<open>(a, b)\<close> of equal length with an entry
  \<open>a\<^sub>k = 0\<close>, \<open>cov_gauss_pce\<close> raises nothing and returns its tensor: the factor
  \<open>1 / ((i + 1) a\<^sub>k\<^sup>2)\<close> of the interior recursion is a division by zero, the value the
  recursion stores at entry \<open>k\<close> is not finite whatever the tensor holds, and every
  interior entry \<open>[i + 1, j + 1, k]\<close> of the result is not finite.
\<close>

theorem cov_gauss_pce_divides_by_zero:
  assumes "2 \<le> n" and "length a = length b" and "k < length a" and "a ! k = 0"
  shows "\<exists>c. cov_gauss_pce mvn n a b = Inr c
           \<and> (\<forall>i<n. \<forall>j<n - 1.
                 fdiv 1 (real (i + 1) * (a ! k)\<^sup>2) = None
               \<and> cov_interior a b mean_vector c' i j ! k = None
               \<and> c ! (i + 1) ! (j + 1) ! k = None)"
proof -
  obtain s where s: "sigma0_matrix mvn n a b = Inr s"
    using sigma0_matrix_Inr[OF assms(2)] by blast
  let ?z = "replicate (n + 1) (replicate (n + 1) (replicate (length a) (Some (0::real))))"
  let ?row = "?z[0 := map (map Some) s]"
  let ?col = "map (\<lambda>i. (?row ! i)[0 := ?row ! 0 ! i]) [0..<n + 1]"
  let ?fin = "fold (\<lambda>i. fold (cov_store a b (mean_table n a b) i) [0..<n - 1]) [0..<n] ?col"
  have eq: "cov_gauss_pce mvn n a b = Inr ?fin"
    using assms(2) by (simp add: cov_gauss_pce_def mean_gauss_pce_table s Let_def del: upt_Suc replicate_Suc)
  have l1: "length ?col = n + 1"
    by simp
  have r1: "\<forall>r\<ge>1. r \<le> n \<longrightarrow> length (?col ! r) = n + 1"
  proof (intro allI impI)
    fix r :: nat assume "1 \<le> r" "r \<le> n"
    have "?col ! r = (?row ! r)[0 := ?row ! 0 ! r]"
      using \<open>r \<le> n\<close> by (rule nth_upt_map0)
    moreover have "?row ! r = replicate (n + 1) (replicate (length a) (Some 0))"
      using \<open>1 \<le> r\<close> \<open>r \<le> n\<close> by (simp del: replicate_Suc)
    ultimately show "length (?col ! r) = n + 1"
      by (simp del: replicate_Suc)
  qed
  have "\<forall>i<n. \<forall>j<n - 1. ?fin ! (i + 1) ! (j + 1) ! k = None"
    using cov_outer_loop[OF l1 r1 le_refl assms(3,4)] by blast
  moreover have "fdiv 1 (real (i + 1) * (a ! k)\<^sup>2) = None" for i
    using assms(4) by (simp add: fdiv_def)
  moreover have "cov_interior a b mean_vector c' i j ! k = None" for i j
    using assms(3,4) by (rule cov_interior_None)
  ultimately show ?thesis
    using eq by blast
qed


theorem cov_gauss_pce_divides_by_zero_witness:
  "(2::nat) \<le> 2 \<and> length [0::real] = length [1::real] \<and> (0::nat) < length [0::real]
   \<and> [0::real] ! 0 = 0
   \<and> (\<exists>c. cov_gauss_pce mvn_independent 2 [0] [1] = Inr c
          \<and> fdiv 1 (real (0 + 1) * ([0] ! 0)\<^sup>2) = None
          \<and> c ! 1 ! 1 ! 0 = None \<and> c ! 2 ! 1 ! 0 = None)"
proof -
  have h: "(2::nat) \<le> 2" "length [0::real] = length [1::real]" "(0::nat) < length [0::real]"
    "[0::real] ! 0 = 0"
    by simp_all
  obtain c where c: "cov_gauss_pce mvn_independent 2 [0] [1] = Inr c"
    and n: "\<forall>i<2. \<forall>j<2 - 1.
                 fdiv 1 (real (i + 1) * ([0] ! 0)\<^sup>2) = None
               \<and> cov_interior [0] [1] [] [] i j ! 0 = None
               \<and> c ! (i + 1) ! (j + 1) ! 0 = None"
    using cov_gauss_pce_divides_by_zero [OF h, of mvn_independent "[]" "[]"] by blast
  have "fdiv 1 (real (0 + 1) * ([0] ! 0)\<^sup>2) = None \<and> c ! (0 + 1) ! (0 + 1) ! 0 = None"
    using n by (metis zero_less_numeral zero_less_one one_add_one add_diff_cancel_left')
  moreover have "c ! (1 + 1) ! (0 + 1) ! 0 = None"
    using n by (metis one_less_numeral_iff semiring_norm(76) zero_less_one one_add_one add_diff_cancel_left')
  ultimately show ?thesis
    using c h by (simp add: numeral_2_eq_2)
qed

subsection \<open>The early returns of the aggregator\<close>

lemma eps_full_flag_path:
  "kw_get False (return_eps_full kw) \<Longrightarrow>
   compute_loss_pca_pce general np n_pce n_firms n_mc ps kw g0 =
     return_eps_full_path general (random_seed np) (standard_normal np) n_pce n_firms n_mc ps (seed kw) g0"
  by (auto simp: compute_loss_pca_pce_def return_eps_full_path_def eps_full_path_def Let_def
      split: sum.splits prod.splits option.splits)

lemma loss_full_flag_path:
  "\<not> kw_get False (return_eps_full kw) \<Longrightarrow> kw_get False (return_loss_full kw) \<Longrightarrow>
   compute_loss_pca_pce general np n_pce n_firms n_mc ps kw g0 =
     return_loss_full_path general (random_seed np) (standard_normal np) n_pce n_firms n_mc ps (seed kw) g0"
  by (auto simp: compute_loss_pca_pce_def return_loss_full_path_def eps_full_path_def Let_def
      split: sum.splits prod.splits option.splits)

text \<open>
  Claim C9. In \<open>compute_loss_pca_pce\<close> the flags are consulted in a fixed order. When
  \<open>return_eps_full\<close> is set, the call does what \<open>return_eps_full_path\<close> does: it returns
  the raw simulated eps array right after \<open>simulate_vec_eps_full\<close>, with the generator in
  the state that simulation left. The outcome is the same for every other setting of
  \<open>return_loss_full\<close>, \<open>return_mean_cov_eps\<close> and \<open>n_quad\<close> and for every other quadrature
  provider, \<open>cholesky\<close> and \<open>svd\<close>: the moment computation, the products of Hermite
  polynomials and the sampling of eps take no part in it. When \<open>return_loss_full\<close> is set
  and \<open>return_eps_full\<close> is not, it does what \<open>return_loss_full_path\<close> does: it returns
  the raw loss vector after the products of Hermite polynomials, and the outcome is the
  same for every setting of \<open>return_mean_cov_eps\<close> and \<open>n_quad\<close> and every provider,
  \<open>cholesky\<close> and \<open>svd\<close>.
\<close>

theorem early_return_precedence:
  "(kw_get False (return_eps_full kw) \<longrightarrow>
      compute_loss_pca_pce general np n_pce n_firms n_mc ps kw g0 =
        return_eps_full_path general (random_seed np) (standard_normal np) n_pce n_firms n_mc ps (seed kw) g0
      \<and> (\<forall>np' kw'.
            random_seed np' = random_seed np \<and> standard_normal np' = standard_normal np
            \<and> seed kw' = seed kw \<and> kw_get False (return_eps_full kw') \<longrightarrow>
            compute_loss_pca_pce general np' n_pce n_firms n_mc ps kw' g0 =
              compute_loss_pca_pce general np n_pce n_firms n_mc ps kw g0))
   \<and> (\<not> kw_get False (return_eps_full kw) \<and> kw_get False (return_loss_full kw) \<longrightarrow>
      compute_loss_pca_pce general np n_pce n_firms n_mc ps kw g0 =
        return_loss_full_path general (random_seed np) (standard_normal np) n_pce n_firms n_mc ps (seed kw) g0
      \<and> (\<forall>np' kw'.
            random_seed np' = random_seed np \<and> standard_normal np' = standard_normal np
            \<and> seed kw' = seed kw \<and> \<not> kw_get False (return_eps_full kw')
            \<and> kw_get False (return_loss_full kw') \<longrightarrow>
            compute_loss_pca_pce general np' n_pce n_firms n_mc ps kw' g0 =
              compute_loss_pca_pce general np n_pce n_firms n_mc ps kw g0))"
proof (intro conjI impI allI)
  assume e: "kw_get False (return_eps_full kw)"
  show "compute_loss_pca_pce general np n_pce n_firms n_mc ps kw g0 =
        return_eps_full_path general (random_seed np) (standard_normal np) n_pce n_firms n_mc ps (seed kw) g0"
    using e by (rule eps_full_flag_path)
  fix np' :: "'a numpy" and kw' :: kwargs
  assume "random_seed np' = random_seed np \<and> standard_normal np' = standard_normal np
            \<and> seed kw' = seed kw \<and> kw_get False (return_eps_full kw')"
  then show "compute_loss_pca_pce general np' n_pce n_firms n_mc ps kw' g0 =
              compute_loss_pca_pce general np n_pce n_firms n_mc ps kw g0"
    using e by (simp add: eps_full_flag_path)
next
  assume l: "\<not> kw_get False (return_eps_full kw) \<and> kw_get False (return_loss_full kw)"
  show "compute_loss_pca_pce general np n_pce n_firms n_mc ps kw g0 =
        return_loss_full_path general (random_seed np) (standard_normal np) n_pce n_firms n_mc ps (seed kw) g0"
    using l by (simp add: loss_full_flag_path)
  fix np' :: "'a numpy" and kw' :: kwargs
  assume "random_seed np' = random_seed np \<and> standard_normal np' = standard_normal np
            \<and> seed kw' = seed kw \<and> \<not> kw_get False (return_eps_full kw')
            \<and> kw_get False (return_loss_full kw')"
  then show "compute_loss_pca_pce general np' n_pce n_firms n_mc ps kw' g0 =
              compute_loss_pca_pce general np n_pce n_firms n_mc ps kw g0"
    using l by (simp add: loss_full_flag_path)
qed

lemma compute_multi_index_0: "compute_multi_index general 0 = ([0], [0], [1])"
  by (simp add: compute_multi_index_def tab_multi_idx_def comb_0_0 py_int_def)

lemma eps_full_path_one_firm:
  "eps_full_path general (random_seed numpy_1x1) (standard_normal numpy_1x1) 0 1 1 one_firm None 0
     = Inr ([[1 / 2]], [0], [0], 1)"
  by (simp add: eps_full_path_def compute_multi_index_0 firm_powers_def one_firm_def numpy_1x1_def
      simulate_vec_eps_full_def bshape_def bget_def bidx_def coef_gauss_pce_def norm_cdf_0 Let_def)

theorem early_return_precedence_witness:
  "kw_get False (return_eps_full
       \<lparr>return_mean_cov_eps = Some True, return_eps_full = Some True, return_loss_full = Some True,
        n_quad = None, seed = None\<rparr>)
   \<and> compute_loss_pca_pce binom_exact numpy_1x1 0 1 1 one_firm
       \<lparr>return_mean_cov_eps = Some True, return_eps_full = Some True, return_loss_full = Some True,
        n_quad = None, seed = None\<rparr> 0
       = Inr (Matrix [[1 / 2]], 1)
   \<and> \<not> kw_get False (return_eps_full
       \<lparr>return_mean_cov_eps = Some True, return_eps_full = None, return_loss_full = Some True,
        n_quad = None, seed = None\<rparr>)
   \<and> kw_get False (return_loss_full
       \<lparr>return_mean_cov_eps = Some True, return_eps_full = None, return_loss_full = Some True,
        n_quad = None, seed = None\<rparr>)
   \<and> compute_loss_pca_pce binom_exact numpy_1x1 0 1 1 one_firm
       \<lparr>return_mean_cov_eps = Some True, return_eps_full = None, return_loss_full = Some True,
        n_quad = None, seed = None\<rparr> 0
       = Inr (Vector [1 / 2], 3)"
proof -
  let ?k1 = "\<lparr>return_mean_cov_eps = Some True, return_eps_full = Some True,
              return_loss_full = Some True, n_quad = None, seed = None\<rparr>"
  let ?k2 = "\<lparr>return_mean_cov_eps = Some True, return_eps_full = None,
              return_loss_full = Some True, n_quad = None, seed = None\<rparr>"
  have h1: "kw_get False (return_eps_full ?k1)"
    and h2: "\<not> kw_get False (return_eps_full ?k2)" "kw_get False (return_loss_full ?k2)"
    by (simp_all add: kw_get_def)
  have p1: "return_eps_full_path binom_exact (random_seed numpy_1x1) (standard_normal numpy_1x1) 0 1 1 one_firm
              (seed ?k1) 0 = Inr (Matrix [[1 / 2]], 1)"
    by (simp add: return_eps_full_path_def eps_full_path_one_firm[unfolded One_nat_def])
  have p2: "return_loss_full_path binom_exact (random_seed numpy_1x1) (standard_normal numpy_1x1) 0 1 1 one_firm
              (seed ?k2) 0 = Inr (Vector [1 / 2], 3)"
    by (simp add: return_loss_full_path_def eps_full_path_one_firm[unfolded One_nat_def])
       (simp add: numpy_1x1_def sum_axis0_def numeral_3_eq_3)
  have "compute_loss_pca_pce binom_exact numpy_1x1 0 1 1 one_firm ?k1 0 = Inr (Matrix [[1 / 2]], 1)"
    using early_return_precedence [of ?k1 binom_exact numpy_1x1 0 1 1 one_firm 0] h1 p1 by simp
  moreover have "compute_loss_pca_pce binom_exact numpy_1x1 0 1 1 one_firm ?k2 0 = Inr (Vector [1 / 2], 3)"
    using early_return_precedence [of ?k2 binom_exact numpy_1x1 0 1 1 one_firm 0] h2 p2 by simp
  ultimately show ?thesis
    using h1 h2 by blast
qed

subsection \<open>The sampling step of the aggregator\<close>

lemma length_randn2: "length (fst (randn2 draw m c g)) = m"
  by (induction m arbitrary: g) (simp_all add: split_beta)

lemma randn2_snoc:
  "randn2 draw (Suc m) c g =
     (fst (randn2 draw m c g) @ [fst (randn draw c (snd (randn2 draw m c g)))],
      snd (randn draw c (snd (randn2 draw m c g))))"
proof (induction m arbitrary: g)
  case 0
  show ?case by (simp add: split_beta)
next
  case (Suc m)
  have "randn2 draw (Suc (Suc m)) c g =
      (fst (randn draw c g) # fst (randn2 draw (Suc m) c (snd (randn draw c g))),
       snd (randn2 draw (Suc m) c (snd (randn draw c g))))"
    by (simp add: split_beta)
  also have "\<dots> = (fst (randn2 draw (Suc m) c g) @ [fst (randn draw c (snd (randn2 draw (Suc m) c g)))],
      snd (randn draw c (snd (randn2 draw (Suc m) c g))))"
    unfolding Suc.IH[of "snd (randn draw c g)"] by (simp add: split_beta)
  finally show ?case .
qed

lemma pca_fold:
  assumes "length u = length eigs"
  shows "fold (pca_step draw n_mc u eigs) [0..<m] (replicate (length eigs) (replicate n_mc 0), g)
     = (map (\<lambda>r. map (\<lambda>c. (\<Sum>idx\<leftarrow>[0..<m]. sqrt (eigs ! idx) * (u ! r ! idx)
                                   * (fst (randn2 draw m n_mc g) ! idx ! c)))
                       [0..<n_mc]) [0..<length eigs],
        snd (randn2 draw m n_mc g))"
proof (induction m)
  case 0
  show ?case
    by (simp add: map_replicate_const)
next
  case (Suc m)
  let ?Z = "fst (randn2 draw m n_mc g)"
  let ?g = "snd (randn2 draw m n_mc g)"
  let ?z = "fst (randn draw n_mc ?g)"
  let ?V = "map (\<lambda>r. map (\<lambda>c. (\<Sum>idx\<leftarrow>[0..<m]. sqrt (eigs ! idx) * (u ! r ! idx) * (?Z ! idx ! c)))
                       [0..<n_mc]) [0..<length eigs]"
  have snoc: "fst (randn2 draw (Suc m) n_mc g) = ?Z @ [?z]"
    "snd (randn2 draw (Suc m) n_mc g) = snd (randn draw n_mc ?g)"
    unfolding randn2_snoc by simp_all
  have old: "(?Z @ [?z]) ! idx = ?Z ! idx" if "idx < m" for idx
    using that by (simp add: nth_append length_randn2)
  have new: "(?Z @ [?z]) ! m = ?z"
    by (simp add: nth_append length_randn2)
  have sum: "(\<Sum>idx\<leftarrow>[0..<Suc m]. sqrt (eigs ! idx) * (u ! r ! idx) * ((?Z @ [?z]) ! idx ! c))
      = (\<Sum>idx\<leftarrow>[0..<m]. sqrt (eigs ! idx) * (u ! r ! idx) * (?Z ! idx ! c))
        + sqrt (eigs ! m) * ((u ! r ! m) * (?z ! c))" for r c
  proof -
    have "map (\<lambda>idx. sqrt (eigs ! idx) * (u ! r ! idx) * ((?Z @ [?z]) ! idx ! c)) [0..<m]
        = map (\<lambda>idx. sqrt (eigs ! idx) * (u ! r ! idx) * (?Z ! idx ! c)) [0..<m]"
      by (rule map_cong) (simp_all add: old)
    then have "(\<Sum>idx\<leftarrow>[0..<m]. sqrt (eigs ! idx) * (u ! r ! idx) * ((?Z @ [?z]) ! idx ! c))
        = (\<Sum>idx\<leftarrow>[0..<m]. sqrt (eigs ! idx) * (u ! r ! idx) * (?Z ! idx ! c))"
      by (simp only:)
    moreover have "(\<Sum>idx\<leftarrow>[0..<Suc m]. sqrt (eigs ! idx) * (u ! r ! idx) * ((?Z @ [?z]) ! idx ! c))
        = (\<Sum>idx\<leftarrow>[0..<m]. sqrt (eigs ! idx) * (u ! r ! idx) * ((?Z @ [?z]) ! idx ! c))
          + sqrt (eigs ! m) * (u ! r ! m) * ((?Z @ [?z]) ! m ! c)"
      by simp
    ultimately show ?thesis
      unfolding new by (simp only: mult.assoc)
  qed
  have "fold (pca_step draw n_mc u eigs) [0..<Suc m] (replicate (length eigs) (replicate n_mc 0), g)
      = pca_step draw n_mc u eigs m (?V, ?g)"
    using Suc.IH by simp
  also have "\<dots> = (map (\<lambda>r. map (\<lambda>c. ?V ! r ! c + sqrt (eigs ! m) * ((u ! r ! m) * (?z ! c))) [0..<n_mc])
                        [0..<length eigs], snd (randn draw n_mc ?g))"
    using assms by (simp add: pca_step_def split_beta Let_def)
  also have "\<dots> = (map (\<lambda>r. map (\<lambda>c. (\<Sum>idx\<leftarrow>[0..<Suc m]. sqrt (eigs ! idx) * (u ! r ! idx)
                                   * (fst (randn2 draw (Suc m) n_mc g) ! idx ! c)))
                       [0..<n_mc]) [0..<length eigs],
        snd (randn2 draw (Suc m) n_mc g))"
    unfolding snoc sum by simp
  finally show ?case .
qed

text \<open>
  Claim C7. When \<open>np.linalg.cholesky\<close> raises \<open>LinAlgError\<close> on the covariance matrix of
  eps, \<open>simulate_vec_eps\<close> does not raise: with the decomposition \<open>(u, eigs, vh)\<close> that
  \<open>np.linalg.svd\<close> returns, it returns the samples
  \<open>vec_eps[r, c] = mean_eps[r] + \<Sum>\<^sub>i\<^sub>d\<^sub>x \<surd>eigs[idx] u[r, idx] z\<^sub>i\<^sub>d\<^sub>x[c]\<close>, the sum over the
  \<open>n_eps\<close> components, where \<open>z\<^sub>i\<^sub>d\<^sub>x\<close> is the \<open>idx\<close>-th of \<open>n_eps\<close> successive vectors of
  \<open>n_mc\<close> standard normal draws, and it leaves the generator after these draws.
\<close>

theorem cholesky_failure_falls_back:
  assumes "cholesky np cov_eps = Inl LinAlgError"
    and "svd np cov_eps = Inr (u, eigs, vh)"
    and "length u = n_eps" and "length eigs = n_eps" and "length mean_eps = n_eps"
  shows "simulate_vec_eps np n_eps n_mc mean_eps cov_eps g =
     Inr (map (\<lambda>r. map (\<lambda>c. mean_eps ! r
                              + (\<Sum>idx\<leftarrow>[0..<n_eps]. sqrt (eigs ! idx) * (u ! r ! idx)
                                   * (fst (randn2 (standard_normal np) n_eps n_mc g) ! idx ! c)))
                     [0..<n_mc]) [0..<n_eps],
          snd (randn2 (standard_normal np) n_eps n_mc g))"
proof -
  have ue: "length u = length eigs"
    using assms(3,4) by simp
  have n: "n_eps = length eigs"
    using assms(4) by simp
  show ?thesis
    unfolding simulate_vec_eps_def n
    by (simp add: assms(1,2) pca_fold[OF ue] Let_def add.commute)
qed

theorem cholesky_failure_falls_back_witness:
  "cholesky numpy_1x1 [[0]] = Inl LinAlgError
   \<and> svd numpy_1x1 [[0]] = Inr ([[1]], [0], [[1]])
   \<and> length [[1::real]] = 1 \<and> length [0::real] = 1 \<and> length [5::real] = 1
   \<and> simulate_vec_eps numpy_1x1 1 2 [5] [[0]] 0 = Inr ([[5, 5]], 2)"
proof -
  have h: "cholesky numpy_1x1 [[0]] = Inl LinAlgError"
    "svd numpy_1x1 [[0]] = Inr ([[1]], [0], [[1]])"
    "length [[1::real]] = 1" "length [0::real] = 1" "length [5::real] = 1"
    by (simp_all add: numpy_1x1_def)
  have "simulate_vec_eps numpy_1x1 1 2 [5] [[0]] 0 = Inr ([[5, 5]], 2)"
    using cholesky_failure_falls_back [OF h, of 2 0]
    by (simp add: upt_2 numpy_1x1_def numeral_2_eq_2)
  then show ?thesis
    using h by blast
qed

end
